theory Spec2Isabelle
  imports Main "HOL-Library.Sublist" "HOL-Library.AList" "HOL-Library.Word"
begin

section \<open>JavaScript values\<close>

text \<open>
  The two source files are TypeScript. A string is the list of its UTF-16 code units,
  and \<open>str\<close> turns a literal of this theory into one. A \<open>number\<close> is an integer, \<open>NaN\<close>
  or an infinity: the doubles that \<open>parseInt\<close> can yield are of these kinds, and the
  exit codes of a process are integers. Doubles with a fraction and the sign of zero
  are left out.
\<close>

type_synonym codeunit = "16 word"

type_synonym jsstring = "codeunit list"

definition str :: "string \<Rightarrow> jsstring" where
  "str s = map of_char s"

datatype number = Integral int | NaN | PosInfinity | NegInfinity

datatype jsvalue =
    JUndefined
  | JNull
  | JBoolean bool
  | JNumber number
  | JString jsstring
  | JArray "jsvalue list"
  | JObject "(string \<times> jsvalue) list"

fun isNaN :: "number \<Rightarrow> bool" where
  "isNaN NaN = True"
| "isNaN n = False"

text \<open>Truthiness of a number: \<open>0\<close> and \<open>NaN\<close> are falsy.\<close>

fun truthy :: "number \<Rightarrow> bool" where
  "truthy (Integral n) = (n \<noteq> 0)"
| "truthy NaN = False"
| "truthy PosInfinity = True"
| "truthy NegInfinity = True"

text \<open>The relational operators \<open><\<close> and \<open>>\<close> on numbers: false when an operand is \<open>NaN\<close>.\<close>

fun lessThan_num :: "number \<Rightarrow> number \<Rightarrow> bool" where
  "lessThan_num (Integral a) (Integral b) = (a < b)"
| "lessThan_num (Integral a) PosInfinity = True"
| "lessThan_num NegInfinity (Integral b) = True"
| "lessThan_num NegInfinity PosInfinity = True"
| "lessThan_num a b = False"

definition greaterThan_num :: "number \<Rightarrow> number \<Rightarrow> bool" where
  "greaterThan_num a b = lessThan_num b a"

text \<open>Unary minus.\<close>

fun negate :: "number \<Rightarrow> number" where
  "negate (Integral n) = Integral (- n)"
| "negate NaN = NaN"
| "negate PosInfinity = NegInfinity"
| "negate NegInfinity = PosInfinity"

text \<open>
  The double nearest to a natural number, ties to the even significand: a number
  below \<open>2^53\<close> is a double; a longer one keeps its 53 leading bits, rounded; what
  rounds to \<open>2^1024\<close> or more is infinite.
\<close>

fun bitLength :: "nat \<Rightarrow> nat" where
  "bitLength n = (if n = 0 then 0 else Suc (bitLength (n div 2)))"

declare bitLength.simps [simp del]

definition toDouble :: "nat \<Rightarrow> number" where
  "toDouble m =
     (if m < 2 ^ 53 then Integral (int m)
      else let e = bitLength m - 53;
               q = m div 2 ^ e;
               r = m mod 2 ^ e;
               half = 2 ^ (e - 1);
               q' = (if half < r \<or> (r = half \<and> odd q) then q + 1 else q)
           in if 2 ^ 1024 \<le> q' * 2 ^ e then PosInfinity else Integral (int (q' * 2 ^ e)))"

section \<open>The duration flag (src/flags/duration.ts)\<close>

subsection \<open>\<open>parseInt(input, 10)\<close>\<close>

text \<open>
  The built-in of the language, after ECMAScript: leading white space is skipped
  (\<open>StrWhiteSpaceChar\<close>: the white space and the line terminators of the language),
  one sign is read, then the longest run of decimal digits; no digit gives \<open>NaN\<close>, and
  what follows the digits is ignored. The result is the double nearest to the value
  of the digits, with the sign. ECMAScript lets an implementation replace the digits
  after the twentieth by zeros; the model rounds the exact value.
\<close>

definition isDigit :: "codeunit \<Rightarrow> bool" where
  "isDigit c = (c \<in> set (str ''0123456789''))"

definition isWhiteSpace :: "codeunit \<Rightarrow> bool" where
  "isWhiteSpace c =
     (c \<in> {0x0009, 0x000A, 0x000B, 0x000C, 0x000D, 0x0020, 0x00A0, 0x1680,
            0x2000, 0x2001, 0x2002, 0x2003, 0x2004, 0x2005, 0x2006, 0x2007,
            0x2008, 0x2009, 0x200A, 0x2028, 0x2029, 0x202F, 0x205F, 0x3000, 0xFEFF})"

definition digitValue :: "codeunit \<Rightarrow> nat" where
  "digitValue c = unat c - 48"

definition digitsValue :: "jsstring \<Rightarrow> nat" where
  "digitsValue ds = foldl (\<lambda>acc c. 10 * acc + digitValue c) 0 ds"

definition parseInt :: "jsstring \<Rightarrow> number" where
  "parseInt input =
     (let s = dropWhile isWhiteSpace input;
          negative = (case s of c # r \<Rightarrow> c = of_char (CHR ''-'') | [] \<Rightarrow> False);
          body = (case s of
                    c # r \<Rightarrow> if c = of_char (CHR ''-'') \<or> c = of_char (CHR ''+'') then r else s
                  | [] \<Rightarrow> s);
          ds = takeWhile isDigit body
      in if ds = [] then NaN
         else if negative then negate (toDouble (digitsValue ds))
         else toDouble (digitsValue ds))"

subsection \<open>Configuration, durations and errors\<close>

text \<open>
  \<open>DurationUnit\<close> is the lower-cased key set of \<open>Duration.Unit\<close> of @salesforce/kit, and
  \<open>Duration[unit](n)\<close> builds the duration of quantity \<open>n\<close> in that unit.
\<close>

datatype DurationUnit = Minutes | Milliseconds | Seconds | Hours | Days | Weeks

record DurationFlagConfig =
  unit :: DurationUnit
  defaultValue :: "number option"
  min_opt :: "number option"
  max_opt :: "number option"

record Duration =
  quantity :: number
  durationUnit :: DurationUnit

text \<open>The two errors of the message catalogue that \<open>validate\<close> throws.\<close>

datatype SfError_duration =
    InvalidDuration
  | DurationBounds "number option" "number option"

definition toDuration :: "number \<Rightarrow> DurationUnit \<Rightarrow> Duration" where
  "toDuration parsedInput u = \<lparr>quantity = parsedInput, durationUnit = u\<rparr>"

text \<open>
  \<open>min && parsedInput < min\<close>: an absent bound is \<open>undefined\<close>, which is falsy, as
  are the bounds \<open>0\<close> and \<open>NaN\<close>. \<open>parseInt\<close> does not throw, and the \<open>catch\<close> block
  throws the same error as the \<open>try\<close> block.
\<close>

definition validate :: "jsstring \<Rightarrow> DurationFlagConfig \<Rightarrow> SfError_duration + Duration" where
  "validate input config =
     (let parsedInput = parseInt input in
      if isNaN parsedInput then Inl InvalidDuration
      else if (case min_opt config of None \<Rightarrow> False
               | Some m \<Rightarrow> truthy m \<and> lessThan_num parsedInput m)
        then Inl (DurationBounds (min_opt config) (max_opt config))
      else if (case max_opt config of None \<Rightarrow> False
               | Some m \<Rightarrow> truthy m \<and> greaterThan_num parsedInput m)
        then Inl (DurationBounds (min_opt config) (max_opt config))
      else Inr (toDuration parsedInput (unit config)))"

text \<open>
  The \<open>default\<close> hook of the flag:
  \<open>defaultValue ? toDuration(defaultValue, unit) : undefined\<close>; \<open>None\<close> is \<open>undefined\<close>.
\<close>

definition durationFlag_default :: "DurationFlagConfig \<Rightarrow> Duration option" where
  "durationFlag_default options =
     (case defaultValue options of
        None \<Rightarrow> None
      | Some d \<Rightarrow> if truthy d then Some (toDuration d (unit options)) else None)"

text \<open>The configuration \<open>{unit: u}\<close>.\<close>

definition unitOnly :: "DurationUnit \<Rightarrow> DurationFlagConfig" where
  "unitOnly u = \<lparr>unit = u, defaultValue = None, min_opt = None, max_opt = None\<rparr>"

section \<open>Exit codes and error classification\<close>

subsection \<open>Regular expressions and substring search\<close>

text \<open>
  The fragment of regular expressions that the gack pattern uses: a run of at least
  \<open>n\<close> decimal digits (\<open>\d{n,}\<close>), a literal character, and an optional literal
  character (\<open>c?\<close>). \<open>matchHere\<close> is a backtracking matcher anchored at the start of
  the string: every admissible length of a digit run is tried.
\<close>

datatype atom = Digits nat | Lit codeunit | Opt codeunit

fun matchHere :: "atom list \<Rightarrow> jsstring \<Rightarrow> bool" where
  "matchHere [] s = True"
| "matchHere (Lit c # r) s = (case s of [] \<Rightarrow> False | x # xs \<Rightarrow> x = c \<and> matchHere r xs)"
| "matchHere (Opt c # r) s =
     ((case s of [] \<Rightarrow> False | x # xs \<Rightarrow> x = c \<and> matchHere r xs) \<or> matchHere r s)"
| "matchHere (Digits n # r) s =
     list_ex (\<lambda>k. matchHere r (drop k s)) [n..<Suc (length (takeWhile isDigit s))]"

text \<open>\<open>regex.test(s)\<close> without flags: a match may start at any index of \<open>s\<close>.\<close>

definition regexTest :: "atom list \<Rightarrow> jsstring \<Rightarrow> bool" where
  "regexTest r s = list_ex (\<lambda>i. matchHere r (drop i s)) [0..<Suc (length s)]"

text \<open>\<^verbatim>\<open>/\d{9,}-\d{3,} \(-?\d{7,}\)/\<close>\<close>

definition gackRegex :: "atom list" where
  "gackRegex =
     [Digits 9, Lit (of_char (CHR ''-'')), Digits 3, Lit (of_char (CHR '' '')),
      Lit (of_char (CHR ''('')), Opt (of_char (CHR ''-'')), Digits 7,
      Lit (of_char (CHR '')''))]"

text \<open>\<open>s.includes(pat)\<close>: \<open>pat\<close> occurs in \<open>s\<close> as a contiguous block.\<close>

definition includes_str :: "jsstring \<Rightarrow> jsstring \<Rightarrow> bool" where
  "includes_str s pat = sublist pat s"

subsection \<open>Error objects\<close>

text \<open>
  The argument type is \<open>Error | SfError | SfCommandError\<close>. \<open>ErrorProps\<close> holds the own
  and inherited properties the code reads. A property probed with \<open>in\<close> is an option:
  \<open>None\<close> when the key is absent, \<open>Some v\<close> when it is present with value \<open>v\<close>, which
  may be \<open>undefined\<close> or of any other kind. \<open>message\<close> is a string by its type; \<open>name\<close>
  and \<open>stack\<close> are \<open>None\<close> when \<open>undefined\<close>. \<open>instanceofTypeError\<close> records the class
  of the object.

  Objects are references, so a chain of causes may run into a cycle. The type of
  errors is therefore coinductive: a cyclic chain is its infinite unfolding.
  \<open>ErrorCause c\<close> is a cause that is an instance of \<open>Error\<close>; \<open>NonErrorCause v\<close> is a
  \<open>cause\<close> key holding any other value.
\<close>

record ErrorProps =
  instanceofTypeError :: bool
  message :: jsstring
  name :: "jsstring option"
  stack :: "jsstring option"
  oclif :: "jsvalue option"
  exitCode :: "jsvalue option"
  code :: "jsvalue option"
  actions :: "jsvalue option"
  context_prop :: "jsvalue option"
  commandName :: "jsvalue option"
  data :: "jsvalue option"
  result :: "jsvalue option"

codatatype error = Error (props: ErrorProps) (cause: cause)
  and cause = NoCause | NonErrorCause jsvalue | ErrorCause error

subsection \<open>\<open>errorIsGack\<close> and \<open>errorIsTypeError\<close>\<close>

text \<open>
  Both functions follow the cause chain by unguarded recursion. The result is \<open>None\<close>
  when the recursion does not return (in JavaScript the call stack overflows).
\<close>

partial_function (option) errorIsGack :: "error \<Rightarrow> bool option" where
  "errorIsGack error =
     (if regexTest gackRegex (message (props error)) then Some True
      else if (case stack (props error) of None \<Rightarrow> False | Some s \<Rightarrow> regexTest gackRegex s)
        then Some True
      else (case cause error of
              NoCause \<Rightarrow> Some False
            | NonErrorCause v \<Rightarrow> Some False
            | ErrorCause c \<Rightarrow> errorIsGack c))"

partial_function (option) errorIsTypeError :: "error \<Rightarrow> bool option" where
  "errorIsTypeError error =
     (if instanceofTypeError (props error) then Some True
      else if name (props error) = Some (str ''TypeError'') then Some True
      else if includes_str (message (props error)) (str ''TypeError'') then Some True
      else if (case stack (props error) of
                 None \<Rightarrow> False
               | Some s \<Rightarrow> includes_str s (str ''TypeError''))
        then Some True
      else (case cause error of
              NoCause \<Rightarrow> Some False
            | NonErrorCause v \<Rightarrow> Some False
            | ErrorCause c \<Rightarrow> errorIsTypeError c))"

declare errorIsGack.simps [code]
declare errorIsTypeError.simps [code]

subsection \<open>\<open>computeErrorCode\<close>\<close>

text \<open>
  \<open>isOclifError\<close> tests only that the key \<open>oclif\<close> is present, and \<open>e.oclif.exit\<close> then
  reads a property of its value. On \<open>undefined\<close> and \<open>null\<close> that read throws a
  \<open>TypeError\<close>; on an object it gives the property, or \<open>undefined\<close> when the object has
  none of that name; on a value of any other kind it gives \<open>undefined\<close>, as none of
  them has a property \<open>exit\<close>.
\<close>

datatype js_exception = TypeError_reading_nullish

fun readExit :: "jsvalue \<Rightarrow> js_exception + jsvalue" where
  "readExit JUndefined = Inl TypeError_reading_nullish"
| "readExit JNull = Inl TypeError_reading_nullish"
| "readExit (JObject kvs) = Inr (case map_of kvs ''exit'' of None \<Rightarrow> JUndefined | Some v \<Rightarrow> v)"
| "readExit v = Inr JUndefined"

text \<open>
  \<open>typeof v === 'number'\<close> narrows \<open>v\<close> to a number. \<open>process.exitCode\<close> is ambient
  state that the function only reads: it is a parameter. The result is \<open>None\<close> when
  one of the two classifiers does not return, \<open>Some (Inl x)\<close> when \<open>x\<close> is thrown, and
  \<open>Some (Inr n)\<close> when \<open>n\<close> is returned.
\<close>

fun asNumber :: "jsvalue \<Rightarrow> number option" where
  "asNumber (JNumber n) = Some n"
| "asNumber v = None"

definition computeErrorCode :: "jsvalue \<Rightarrow> error \<Rightarrow> (js_exception + number) option" where
  "computeErrorCode processExitCode e =
     (case errorIsGack e of
        None \<Rightarrow> None
      | Some True \<Rightarrow> Some (Inr (Integral 20))
      | Some False \<Rightarrow>
         (case errorIsTypeError e of
            None \<Rightarrow> None
          | Some True \<Rightarrow> Some (Inr (Integral 10))
          | Some False \<Rightarrow>
             (case (case oclif (props e) of
                      None \<Rightarrow> Inr None
                    | Some oc \<Rightarrow>
                        (case readExit oc of Inl x \<Rightarrow> Inl x | Inr v \<Rightarrow> Inr (asNumber v))) of
                Inl x \<Rightarrow> Some (Inl x)
              | Inr (Some n) \<Rightarrow> Some (Inr n)
              | Inr None \<Rightarrow>
                 (case (case exitCode (props e) of None \<Rightarrow> None | Some v \<Rightarrow> asNumber v) of
                    Some n \<Rightarrow> Some (Inr n)
                  | None \<Rightarrow>
                     (case code (props e) of
                        Some v \<Rightarrow>
                          Some (Inr (case asNumber v of None \<Rightarrow> Integral 1 | Some n \<Rightarrow> n))
                      | None \<Rightarrow>
                          Some (Inr (case asNumber processExitCode of
                                       None \<Rightarrow> Integral 1 | Some n \<Rightarrow> n)))))))"

subsection \<open>\<open>errorToSfCommandError\<close>\<close>

text \<open>
  An object literal is an association list in key order. \<open>{...a, ...b}\<close> writes the
  entries of \<open>b\<close> over those of \<open>a\<close>: a key of \<open>a\<close> keeps its place, a new key is appended.
\<close>

type_synonym jsobject = "(string \<times> jsvalue) list"

definition spread :: "jsobject \<Rightarrow> jsobject \<Rightarrow> jsobject" where
  "spread a b = fold (\<lambda>(k, v). AList.update k v) b a"

definition nullish :: "jsvalue \<Rightarrow> bool" where
  "nullish v = (v = JNull \<or> v = JUndefined)"

text \<open>\<open>v ?? d\<close>\<close>

definition coalesce :: "jsvalue \<Rightarrow> jsvalue \<Rightarrow> jsvalue" where
  "coalesce v d = (if nullish v then d else v)"

text \<open>
  Modelled from the spec: \<open>removeEmpty\<close> of \<open>./util.js\<close>, which is not among the source
  files. After the specification's data model, fields whose source value is absent
  are omitted from the record, not set to \<open>null\<close> or \<open>undefined\<close>: the entries with a
  nullish value are dropped and the others are kept in order.
\<close>

definition removeEmpty :: "jsobject \<Rightarrow> jsobject" where
  "removeEmpty obj = filter (\<lambda>(k, v). \<not> nullish v) obj"

text \<open>\<open>'key' in error ? error.key : d\<close>\<close>

fun propOr :: "jsvalue option \<Rightarrow> jsvalue \<Rightarrow> jsvalue" where
  "propOr (Some v) d = v"
| "propOr None d = d"

definition errorToSfCommandError :: "number \<Rightarrow> error \<Rightarrow> jsstring \<Rightarrow> jsobject" where
  "errorToSfCommandError codeFromError e cmdName =
     spread
       (removeEmpty
         [(''code'', JNumber codeFromError),
          (''actions'', propOr (actions (props e)) JNull),
          (''context'',
             coalesce (propOr (context_prop (props e)) (JString cmdName)) (JString cmdName)),
          (''commandName'',
             coalesce (propOr (commandName (props e)) (JString cmdName)) (JString cmdName)),
          (''data'', propOr (data (props e)) JNull),
          (''result'', propOr (result (props e)) JNull)])
       [(''message'', JString (message (props e))),
        (''name'', JString (case name (props e) of None \<Rightarrow> str ''Error'' | Some n \<Rightarrow> n)),
        (''status'', JNumber codeFromError),
        (''stack'', (case stack (props e) of None \<Rightarrow> JUndefined | Some s \<Rightarrow> JString s)),
        (''exitCode'', JNumber codeFromError)]"

section \<open>Notions of the specification\<close>

text \<open>
  The precedence chain of the specification: the sources of an exit code in order,
  each either yielding a number or not applying; the first that applies wins.
\<close>

fun firstMatch :: "'a option list \<Rightarrow> 'a option" where
  "firstMatch [] = None"
| "firstMatch (Some x # xs) = Some x"
| "firstMatch (None # xs) = firstMatch xs"

definition exitCodeSources :: "bool \<Rightarrow> bool \<Rightarrow> jsvalue \<Rightarrow> ErrorProps \<Rightarrow> number option list" where
  "exitCodeSources isGack isTypeError processExitCode p =
     [if isGack then Some (Integral 20) else None,
      if isTypeError then Some (Integral 10) else None,
      (case oclif p of
         Some (JObject kvs) \<Rightarrow>
           (case map_of kvs ''exit'' of Some (JNumber n) \<Rightarrow> Some n | _ \<Rightarrow> None)
       | _ \<Rightarrow> None),
      (case exitCode p of Some (JNumber n) \<Rightarrow> Some n | _ \<Rightarrow> None),
      (case code p of
         None \<Rightarrow> None
       | Some (JNumber n) \<Rightarrow> Some n
       | Some _ \<Rightarrow> Some (Integral 1)),
      (case processExitCode of JNumber n \<Rightarrow> Some n | _ \<Rightarrow> None),
      Some (Integral 1)]"

text \<open>
  The language of a pattern: the strings that it matches from end to end. A run of
  at least \<open>n\<close> digits is any such run, whatever follows it.
\<close>

fun exactly :: "atom list \<Rightarrow> jsstring \<Rightarrow> bool" where
  "exactly [] w = (w = [])"
| "exactly (Lit c # r) w = (\<exists>w'. w = c # w' \<and> exactly r w')"
| "exactly (Opt c # r) w = (exactly r w \<or> (\<exists>w'. w = c # w' \<and> exactly r w'))"
| "exactly (Digits n # r) w =
     (\<exists>ds w'. w = ds @ w' \<and> n \<le> length ds \<and> list_all isDigit ds \<and> exactly r w')"

text \<open>
  The error found after following \<open>n\<close> cause links from \<open>e\<close>; \<open>None\<close> when the chain
  ends before. A chain is finite when \<open>nthCause n e = None\<close> for some \<open>n\<close>.
\<close>

primrec nthCause :: "nat \<Rightarrow> error \<Rightarrow> error option" where
  "nthCause 0 e = Some e"
| "nthCause (Suc n) e =
     (case cause e of
        NoCause \<Rightarrow> None
      | NonErrorCause v \<Rightarrow> None
      | ErrorCause c \<Rightarrow> nthCause n c)"

text \<open>The tests that the two classifiers make on one error, its cause apart.\<close>

definition gackHere :: "error \<Rightarrow> bool" where
  "gackHere e =
     (regexTest gackRegex (message (props e)) \<or>
      (case stack (props e) of None \<Rightarrow> False | Some s \<Rightarrow> regexTest gackRegex s))"

definition typeErrorHere :: "error \<Rightarrow> bool" where
  "typeErrorHere e =
     (instanceofTypeError (props e) \<or> name (props e) = Some (str ''TypeError'') \<or>
      includes_str (message (props e)) (str ''TypeError'') \<or>
      (case stack (props e) of None \<Rightarrow> False | Some s \<Rightarrow> includes_str s (str ''TypeError'')))"

text \<open>A value that is not a number, or is a non-negative integer.\<close>

fun nonNegativeIfNumber :: "jsvalue \<Rightarrow> bool" where
  "nonNegativeIfNumber (JNumber (Integral k)) = (0 \<le> k)"
| "nonNegativeIfNumber (JNumber n) = False"
| "nonNegativeIfNumber v = True"

subsection \<open>Sample inputs\<close>

text \<open>An error with message \<open>m\<close>, the name \<open>Error\<close> and no other property.\<close>

definition plainProps :: "jsstring \<Rightarrow> ErrorProps" where
  "plainProps m =
     \<lparr>instanceofTypeError = False, message = m, name = Some (str ''Error''), stack = None,
      oclif = None, exitCode = None, code = None, actions = None, context_prop = None,
      commandName = None, data = None, result = None\<rparr>"

definition gackMessage :: jsstring where
  "gackMessage = str ''UNKNOWN_EXCEPTION: ErrorId 1746355797-176884 (-1345328791)''"

text \<open>An error that is its own cause: \<open>e.cause = e\<close>.\<close>

primcorec selfCaused :: error and selfCaused_cause :: cause where
  "selfCaused = Error (plainProps (str ''loop'')) selfCaused_cause"
| "selfCaused_cause = ErrorCause selfCaused"

text \<open>A \<open>TypeError\<close> that is its own cause.\<close>

primcorec selfCausedTypeError :: error and selfCausedTypeError_cause :: cause where
  "selfCausedTypeError =
     Error ((plainProps (str ''loop''))\<lparr>instanceofTypeError := True\<rparr>) selfCausedTypeError_cause"
| "selfCausedTypeError_cause = ErrorCause selfCausedTypeError"

text \<open>An error whose message carries a gack id, and an error that wraps it twice.\<close>

definition gackError :: error where
  "gackError = Error (plainProps gackMessage) NoCause"

definition wrappedGack :: error where
  "wrappedGack =
     Error ((plainProps (str ''deploy failed''))\<lparr>exitCode := Some (JNumber (Integral 7))\<rparr>)
       (ErrorCause (Error (plainProps (str ''request failed'')) (ErrorCause gackError)))"

text \<open>
  An id with eight digits only in its first group, which the pattern does not match,
  once in the message and once, well-formed, in the stack.
\<close>

definition shortIdError :: error where
  "shortIdError = Error (plainProps (str ''ErrorId 17463557-176884 (-1345328791)'')) NoCause"

definition gackInStack :: error where
  "gackInStack =
     Error ((plainProps (str ''failed''))
              \<lparr>stack := Some (str ''Error: failed 1746355797-176884 (1345328791) at run'')\<rparr>)
       NoCause"

text \<open>A \<open>TypeError\<close> with an exit code, and one whose cause is a gack.\<close>

definition typeErrorProps :: ErrorProps where
  "typeErrorProps =
     (plainProps (str ''x is not a function''))
       \<lparr>instanceofTypeError := True, name := Some (str ''TypeError''),
        exitCode := Some (JNumber (Integral 7))\<rparr>"

definition typeErrorSample :: error where
  "typeErrorSample = Error typeErrorProps NoCause"

definition typeErrorWithGack :: error where
  "typeErrorWithGack = Error typeErrorProps (ErrorCause gackError)"

text \<open>
  Plain errors that mention \<open>TypeError\<close> in the message or in the stack only, and one
  that mentions \<open>Type Error\<close>.
\<close>

definition typeErrorInMessage :: error where
  "typeErrorInMessage = Error (plainProps (str ''Uncaught TypeError: x is not a function'')) NoCause"

definition typeErrorInStack :: error where
  "typeErrorInStack =
     Error ((plainProps (str ''failed''))\<lparr>stack := Some (str ''TypeError: failed at run'')\<rparr>)
       NoCause"

definition noTypeError :: error where
  "noTypeError = Error (plainProps (str ''Type Error in input'')) NoCause"

text \<open>\<open>oclif.exit = 5\<close> together with \<open>exitCode = 7\<close>.\<close>

definition oclifError :: error where
  "oclifError =
     Error ((plainProps (str ''failed''))
              \<lparr>oclif := Some (JObject [(''exit'', JNumber (Integral 5))]),
               exitCode := Some (JNumber (Integral 7))\<rparr>) NoCause"

text \<open>The key \<open>oclif\<close> present with the value \<open>undefined\<close>, together with \<open>exitCode = 7\<close>.\<close>

definition oclifUndefined :: error where
  "oclifUndefined =
     Error ((plainProps (str ''failed''))
              \<lparr>oclif := Some JUndefined, exitCode := Some (JNumber (Integral 7))\<rparr>) NoCause"

text \<open>An \<open>SfError\<close> with \<open>exitCode = -1\<close>.\<close>

definition negativeExit :: error where
  "negativeExit =
     Error ((plainProps (str ''failed''))\<lparr>exitCode := Some (JNumber (Integral (- 1)))\<rparr>)
       NoCause"

text \<open>An error with \<open>commandName: 'foo'\<close> and no \<open>context\<close>.\<close>

definition fooError :: error where
  "fooError =
     Error ((plainProps (str ''x''))\<lparr>commandName := Some (JString (str ''foo''))\<rparr>) NoCause"

section \<open>Properties of the duration flag\<close>

lemmas parseInt_eval =
  parseInt_def isWhiteSpace_def isDigit_def digitsValue_def digitValue_def str_def
  toDouble_def Let_def







lemma if_either:
  "(if a then x else if b then y else if c then y else z) =
     (if a then x else if b \<or> c then y else z)"
  by simp

text \<open>The three outcomes of \<open>validate\<close>.\<close>

lemma validate_cases:
  "validate input c =
     (if parseInt input = NaN then Inl InvalidDuration
      else if (\<exists>m. min_opt c = Some m \<and> truthy m \<and> lessThan_num (parseInt input) m) \<or>
              (\<exists>m. max_opt c = Some m \<and> truthy m \<and> lessThan_num m (parseInt input))
      then Inl (DurationBounds (min_opt c) (max_opt c))
      else Inr \<lparr>quantity = parseInt input, durationUnit = unit c\<rparr>)"
proof -
  have nan: "isNaN p \<longleftrightarrow> p = NaN" for p by (cases p) auto
  have mn: "(case min_opt c of None \<Rightarrow> False | Some m \<Rightarrow> truthy m \<and> lessThan_num p m)
      = (\<exists>m. min_opt c = Some m \<and> truthy m \<and> lessThan_num p m)" for p
    by (cases "min_opt c") auto
  have mx: "(case max_opt c of None \<Rightarrow> False | Some m \<Rightarrow> truthy m \<and> greaterThan_num p m)
      = (\<exists>m. max_opt c = Some m \<and> truthy m \<and> lessThan_num m p)" for p
    by (cases "max_opt c") (auto simp: greaterThan_num_def)
  show ?thesis
    unfolding validate_def Let_def nan mn mx toDuration_def by (rule if_either)
qed




text \<open>
  Claim C2. A bound of 0 is falsy, so its check is skipped: with \<open>min\<close> set to 0,
  \<open>validate\<close> does what it does without \<open>min\<close>, and likewise for \<open>max\<close>; only the
  \<open>DurationBounds\<close> error of the other bound still carries the 0. In particular
  \<open>validate('5', {unit: 'minutes', min: 0})\<close> returns five minutes.
\<close>

theorem validate_skips_zero_bounds:
  "(min_opt c = Some (Integral 0) \<longrightarrow>
      validate input c =
        (case validate input (c\<lparr>min_opt := None\<rparr>) of
           Inl InvalidDuration \<Rightarrow> Inl InvalidDuration
         | Inl (DurationBounds a b) \<Rightarrow> Inl (DurationBounds (Some (Integral 0)) b)
         | Inr d \<Rightarrow> Inr d)) \<and>
   (max_opt c = Some (Integral 0) \<longrightarrow>
      validate input c =
        (case validate input (c\<lparr>max_opt := None\<rparr>) of
           Inl InvalidDuration \<Rightarrow> Inl InvalidDuration
         | Inl (DurationBounds a b) \<Rightarrow> Inl (DurationBounds a (Some (Integral 0)))
         | Inr d \<Rightarrow> Inr d)) \<and>
   validate (str ''5'') ((unitOnly Minutes)\<lparr>min_opt := Some (Integral 0)\<rparr>) =
     Inr \<lparr>quantity = Integral 5, durationUnit = Minutes\<rparr>"
proof (intro conjI impI)
  assume "min_opt c = Some (Integral 0)"
  then show "validate input c =
        (case validate input (c\<lparr>min_opt := None\<rparr>) of
           Inl InvalidDuration \<Rightarrow> Inl InvalidDuration
         | Inl (DurationBounds a b) \<Rightarrow> Inl (DurationBounds (Some (Integral 0)) b)
         | Inr d \<Rightarrow> Inr d)"
    by (cases "parseInt input = NaN";
        cases "\<exists>m. max_opt c = Some m \<and> truthy m \<and> lessThan_num m (parseInt input)")
      (simp_all add: validate_cases)
next
  assume "max_opt c = Some (Integral 0)"
  then show "validate input c =
        (case validate input (c\<lparr>max_opt := None\<rparr>) of
           Inl InvalidDuration \<Rightarrow> Inl InvalidDuration
         | Inl (DurationBounds a b) \<Rightarrow> Inl (DurationBounds a (Some (Integral 0)))
         | Inr d \<Rightarrow> Inr d)"
    by (cases "parseInt input = NaN";
        cases "\<exists>m. min_opt c = Some m \<and> truthy m \<and> lessThan_num (parseInt input) m")
      (simp_all add: validate_cases)
next
  show "validate (str ''5'') ((unitOnly Minutes)\<lparr>min_opt := Some (Integral 0)\<rparr>) =
     Inr \<lparr>quantity = Integral 5, durationUnit = Minutes\<rparr>"
    by (simp add: validate_def parseInt_eval unitOnly_def toDuration_def)
qed

text \<open>With \<open>min: 0\<close> the input \<open>'-3'\<close> is accepted, and with \<open>max: 0\<close> the input \<open>'3'\<close>.\<close>

theorem validate_skips_zero_bounds_witness:
  "min_opt ((unitOnly Minutes)\<lparr>min_opt := Some (Integral 0)\<rparr>) = Some (Integral 0) \<and>
   validate (str ''-3'') ((unitOnly Minutes)\<lparr>min_opt := Some (Integral 0)\<rparr>) =
     Inr \<lparr>quantity = Integral (- 3), durationUnit = Minutes\<rparr> \<and>
   max_opt ((unitOnly Minutes)\<lparr>max_opt := Some (Integral 0)\<rparr>) = Some (Integral 0) \<and>
   validate (str ''3'') ((unitOnly Minutes)\<lparr>max_opt := Some (Integral 0)\<rparr>) =
     Inr \<lparr>quantity = Integral 3, durationUnit = Minutes\<rparr>"
proof -
  have v1: "validate (str ''-3'') (unitOnly Minutes) =
              Inr \<lparr>quantity = Integral (- 3), durationUnit = Minutes\<rparr>"
    by (simp add: validate_def parseInt_eval unitOnly_def toDuration_def)
  have v2: "validate (str ''3'') (unitOnly Minutes) =
              Inr \<lparr>quantity = Integral 3, durationUnit = Minutes\<rparr>"
    by (simp add: validate_def parseInt_eval unitOnly_def toDuration_def)
  have a: "validate (str ''-3'') ((unitOnly Minutes)\<lparr>min_opt := Some (Integral 0)\<rparr>) =
     Inr \<lparr>quantity = Integral (- 3), durationUnit = Minutes\<rparr>"
    using validate_skips_zero_bounds
      [of "(unitOnly Minutes)\<lparr>min_opt := Some (Integral 0)\<rparr>" "str ''-3''"] v1
    by (simp add: unitOnly_def)
  have b: "validate (str ''3'') ((unitOnly Minutes)\<lparr>max_opt := Some (Integral 0)\<rparr>) =
     Inr \<lparr>quantity = Integral 3, durationUnit = Minutes\<rparr>"
    using validate_skips_zero_bounds
      [of "(unitOnly Minutes)\<lparr>max_opt := Some (Integral 0)\<rparr>" "str ''3''"] v2
    by (simp add: unitOnly_def)
  from a b show ?thesis by simp
qed

text \<open>
  Claim C8. The default of the flag is the duration of \<open>defaultValue\<close> in the unit of
  the configuration when \<open>defaultValue\<close> is truthy, and \<open>undefined\<close> otherwise. A
  configured \<open>defaultValue\<close> of 0 is set, yet the result is \<open>undefined\<close> and not a
  duration of zero seconds. The two examples of the specification hold.
\<close>

theorem durationFlag_default_zero:
  "durationFlag_default ((unitOnly Seconds)\<lparr>defaultValue := Some (Integral 0)\<rparr>) = None \<and>
   durationFlag_default (unitOnly Seconds) = None \<and>
   durationFlag_default ((unitOnly Seconds)\<lparr>defaultValue := Some (Integral 30)\<rparr>) =
     Some \<lparr>quantity = Integral 30, durationUnit = Seconds\<rparr>"
  by (simp add: durationFlag_default_def unitOnly_def toDuration_def)

text \<open>
  Claim C10. \<open>validate\<close> has no check on the sign. When \<open>min\<close> is absent or falsy, and
  \<open>max\<close> is absent, falsy or not below the parsed value, a negative input is accepted
  and gives a negative duration in the unit of the configuration.
\<close>

theorem validate_accepts_negative:
  assumes "parseInt input = Integral n" and "n < 0"
    and "\<forall>m. min_opt c = Some m \<longrightarrow> \<not> truthy m"
    and "\<forall>m. max_opt c = Some m \<longrightarrow> \<not> truthy m \<or> \<not> greaterThan_num (Integral n) m"
  shows "validate input c = Inr \<lparr>quantity = Integral n, durationUnit = unit c\<rparr>"
proof -
  have mn: "\<not> (\<exists>m. min_opt c = Some m \<and> truthy m \<and> lessThan_num (parseInt input) m)"
    using assms(3) by auto
  have mx: "\<not> (\<exists>m. max_opt c = Some m \<and> truthy m \<and> lessThan_num m (parseInt input))"
    using assms(1,4) by (auto simp: greaterThan_num_def)
  show ?thesis using assms(1) mn mx by (simp add: validate_cases)
qed

text \<open>\<open>validate('-5', {unit: 'minutes', min: 0, max: 10})\<close> is minus five minutes.\<close>

theorem validate_accepts_negative_witness:
  "parseInt (str ''-5'') = Integral (- 5) \<and> (- 5 :: int) < 0 \<and>
   validate (str ''-5'') \<lparr>unit = Minutes, defaultValue = None, min_opt = Some (Integral 0),
                           max_opt = Some (Integral 10)\<rparr> =
     Inr \<lparr>quantity = Integral (- 5), durationUnit = Minutes\<rparr>"
proof -
  have p: "parseInt (str ''-5'') = Integral (- 5)" by (simp add: parseInt_eval)
  have "validate (str ''-5'') \<lparr>unit = Minutes, defaultValue = None, min_opt = Some (Integral 0),
                                 max_opt = Some (Integral 10)\<rparr> =
          Inr \<lparr>quantity = Integral (- 5), durationUnit = Minutes\<rparr>"
    using validate_accepts_negative [OF p, of
        "\<lparr>unit = Minutes, defaultValue = None, min_opt = Some (Integral 0),
          max_opt = Some (Integral 10)\<rparr>"]
    by (simp add: greaterThan_num_def)
  with p show ?thesis by simp
qed

text \<open>
  With \<open>min\<close> absent and \<open>max\<close> set to -10, the input \<open>'-5'\<close> is above \<open>max\<close> and is
  rejected: a negative input does not pass every bounds check.
\<close>

theorem validate_negative_rejected_by_max:
  "validate (str ''-5'') ((unitOnly Minutes)\<lparr>max_opt := Some (Integral (- 10))\<rparr>) =
     Inl (DurationBounds None (Some (Integral (- 10))))"
  by (simp add: validate_def parseInt_eval unitOnly_def greaterThan_num_def)

section \<open>Properties of the error classification\<close>

subsection \<open>The matcher and the language of the pattern\<close>

text \<open>
  \<open>matchHere\<close> finds a prefix in the language of the pattern, and \<open>regexTest\<close> a
  substring: the backtracking search is complete.
\<close>

lemma takeWhile_all: "list_all P ds \<Longrightarrow> takeWhile P (ds @ rest) = ds @ takeWhile P rest"
  by (induction ds) auto

lemma matchHere_Lit:
  "matchHere (Lit c # r) s \<longleftrightarrow> (\<exists>rest. s = c # rest \<and> matchHere r rest)"
  by (cases s) auto

lemma matchHere_Opt:
  "matchHere (Opt c # r) s \<longleftrightarrow> (\<exists>rest. s = c # rest \<and> matchHere r rest) \<or> matchHere r s"
  by (cases s) auto

lemma matchHere_Digits_k:
  "matchHere (Digits n # r) s \<longleftrightarrow>
     (\<exists>k. n \<le> k \<and> k \<le> length (takeWhile isDigit s) \<and> matchHere r (drop k s))"
proof -
  have "matchHere (Digits n # r) s \<longleftrightarrow>
      (\<exists>k\<in>{n..<Suc (length (takeWhile isDigit s))}. matchHere r (drop k s))"
    by (simp only: matchHere.simps list_ex_iff set_upt)
  also have "\<dots> \<longleftrightarrow>
      (\<exists>k. n \<le> k \<and> k \<le> length (takeWhile isDigit s) \<and> matchHere r (drop k s))"
    unfolding Bex_def atLeastLessThan_iff less_Suc_eq_le by (simp only: conj_assoc)
  finally show ?thesis .
qed

lemma regexTest_k: "regexTest r s \<longleftrightarrow> (\<exists>i. i \<le> length s \<and> matchHere r (drop i s))"
proof -
  have "regexTest r s \<longleftrightarrow> (\<exists>i\<in>{0..<Suc (length s)}. matchHere r (drop i s))"
    by (simp only: regexTest_def list_ex_iff set_upt)
  also have "\<dots> \<longleftrightarrow> (\<exists>i. i \<le> length s \<and> matchHere r (drop i s))"
    unfolding Bex_def atLeastLessThan_iff less_Suc_eq_le by simp
  finally show ?thesis .
qed

lemma matchHere_Digits:
  "matchHere (Digits n # r) s \<longleftrightarrow>
     (\<exists>ds rest. s = ds @ rest \<and> n \<le> length ds \<and> list_all isDigit ds \<and> matchHere r rest)"
proof
  assume "matchHere (Digits n # r) s"
  then obtain k where k: "n \<le> k" "k \<le> length (takeWhile isDigit s)" "matchHere r (drop k s)"
    using matchHere_Digits_k [of n r s] by blast
  have "take k s = take k (takeWhile isDigit s @ dropWhile isDigit s)" by simp
  also have "\<dots> = take k (takeWhile isDigit s)" using k(2) by (simp del: takeWhile_dropWhile_id)
  finally have tk: "take k s = take k (takeWhile isDigit s)" .
  have "\<forall>c\<in>set (take k (takeWhile isDigit s)). isDigit c"
    by (blast dest: in_set_takeD set_takeWhileD)
  then have da: "list_all isDigit (take k s)"
    by (simp add: tk list_all_iff)
  have "k \<le> length s" using k(2) length_takeWhile_le [of isDigit s] by simp
  then have ln: "n \<le> length (take k s)" using k(1) by simp
  have "s = take k s @ drop k s \<and> n \<le> length (take k s) \<and> list_all isDigit (take k s) \<and>
      matchHere r (drop k s)"
    using k(3) da ln by simp
  then show "\<exists>ds rest. s = ds @ rest \<and> n \<le> length ds \<and> list_all isDigit ds \<and> matchHere r rest"
    by (intro exI)
next
  assume "\<exists>ds rest. s = ds @ rest \<and> n \<le> length ds \<and> list_all isDigit ds \<and> matchHere r rest"
  then obtain ds rest where d: "s = ds @ rest" "n \<le> length ds" "list_all isDigit ds"
    "matchHere r rest" by blast
  have "takeWhile isDigit s = ds @ takeWhile isDigit rest"
    unfolding d(1) using d(3) by (rule takeWhile_all)
  then have "length ds \<le> length (takeWhile isDigit s)" by simp
  moreover have "matchHere r (drop (length ds) s)" unfolding d(1) using d(4) by simp
  ultimately have "\<exists>k. n \<le> k \<and> k \<le> length (takeWhile isDigit s) \<and> matchHere r (drop k s)"
    using d(2) by blast
  then show "matchHere (Digits n # r) s"
    using matchHere_Digits_k [of n r s] by blast
qed

lemma matchHere_exactly: "matchHere r s \<longleftrightarrow> (\<exists>w rest. s = w @ rest \<and> exactly r w)"
proof (induction r arbitrary: s)
  case Nil
  show ?case by simp
next
  case (Cons a r)
  have step: "(\<exists>rest. s = c # rest \<and> matchHere r rest) \<longleftrightarrow>
      (\<exists>w rest. s = w @ rest \<and> (\<exists>w'. w = c # w' \<and> exactly r w'))" for c
  proof
    assume "\<exists>rest. s = c # rest \<and> matchHere r rest"
    then obtain rest where "s = c # rest" "matchHere r rest" by blast
    then obtain w rest' where "rest = w @ rest'" "exactly r w" using Cons.IH by blast
    with \<open>s = c # rest\<close> have "s = (c # w) @ rest'" by simp
    with \<open>exactly r w\<close> show "\<exists>w rest. s = w @ rest \<and> (\<exists>w'. w = c # w' \<and> exactly r w')"
      by blast
  next
    assume "\<exists>w rest. s = w @ rest \<and> (\<exists>w'. w = c # w' \<and> exactly r w')"
    then obtain w' rest where "s = c # (w' @ rest)" "exactly r w'" by auto
    moreover from this have "matchHere r (w' @ rest)" using Cons.IH by blast
    ultimately show "\<exists>rest. s = c # rest \<and> matchHere r rest" by blast
  qed
  show ?case
  proof (cases a)
    case (Lit c)
    show ?thesis
      unfolding Lit matchHere_Lit step by simp
  next
    case (Opt c)
    show ?thesis
      unfolding Opt matchHere_Opt step Cons.IH [of s] by auto
  next
    case (Digits n)
    show ?thesis
    proof
      assume "matchHere (a # r) s"
      then obtain ds rest where d: "s = ds @ rest" "n \<le> length ds" "list_all isDigit ds"
        "matchHere r rest" unfolding Digits matchHere_Digits by blast
      then obtain w rest' where w: "rest = w @ rest'" "exactly r w" using Cons.IH by blast
      have "s = (ds @ w) @ rest'" using d(1) w(1) by simp
      moreover have "exactly (a # r) (ds @ w)" unfolding Digits using d(2,3) w(2) by auto
      ultimately show "\<exists>w rest. s = w @ rest \<and> exactly (a # r) w" by blast
    next
      assume "\<exists>w rest. s = w @ rest \<and> exactly (a # r) w"
      then obtain ds w' rest where d: "s = (ds @ w') @ rest" "n \<le> length ds"
        "list_all isDigit ds" "exactly r w'" unfolding Digits by auto
      have "matchHere r (w' @ rest)" using d(4) Cons.IH by blast
      moreover have "s = ds @ (w' @ rest)" using d(1) by simp
      ultimately show "matchHere (a # r) s"
        unfolding Digits matchHere_Digits using d(2,3) by blast
    qed
  qed
qed

lemma regexTest_exactly:
  "regexTest r s \<longleftrightarrow> (\<exists>pre w post. s = pre @ w @ post \<and> exactly r w)"
proof
  assume "regexTest r s"
  then obtain i where "matchHere r (drop i s)" unfolding regexTest_k by blast
  then obtain w post where "drop i s = w @ post" "exactly r w"
    using matchHere_exactly by blast
  moreover have "s = take i s @ drop i s" by simp
  ultimately have "s = take i s @ w @ post \<and> exactly r w" by simp
  then show "\<exists>pre w post. s = pre @ w @ post \<and> exactly r w" by blast
next
  assume "\<exists>pre w post. s = pre @ w @ post \<and> exactly r w"
  then obtain pre w post where p: "s = pre @ w @ post" "exactly r w" by blast
  then have "matchHere r (w @ post)" using matchHere_exactly by blast
  then have "matchHere r (drop (length pre) s)" using p(1) by simp
  moreover have "length pre \<le> length s" using p(1) by simp
  ultimately show "regexTest r s"
    unfolding regexTest_k by blast
qed

subsection \<open>The recursion along the cause chain\<close>

text \<open>One step of each classifier: the test on the error itself, then its cause.\<close>

lemma errorIsGack_unfold:
  "errorIsGack e =
     (if gackHere e then Some True
      else (case cause e of
              NoCause \<Rightarrow> Some False
            | NonErrorCause v \<Rightarrow> Some False
            | ErrorCause c \<Rightarrow> errorIsGack c))"
  by (subst errorIsGack.simps) (simp add: gackHere_def)

lemma errorIsTypeError_unfold:
  "errorIsTypeError e =
     (if typeErrorHere e then Some True
      else (case cause e of
              NoCause \<Rightarrow> Some False
            | NonErrorCause v \<Rightarrow> Some False
            | ErrorCause c \<Rightarrow> errorIsTypeError c))"
  by (subst errorIsTypeError.simps) (simp add: typeErrorHere_def)

lemma errorIsGack_True_iff:
  "errorIsGack e = Some True \<longleftrightarrow>
     gackHere e \<or> (\<exists>c. cause e = ErrorCause c \<and> errorIsGack c = Some True)"
  by (subst errorIsGack_unfold) (simp split: cause.splits)

lemma errorIsTypeError_True_iff:
  "errorIsTypeError e = Some True \<longleftrightarrow>
     typeErrorHere e \<or> (\<exists>c. cause e = ErrorCause c \<and> errorIsTypeError c = Some True)"
  by (subst errorIsTypeError_unfold) (simp split: cause.splits)

lemma errorIsGack_False_iff:
  "errorIsGack e = Some False \<longleftrightarrow>
     \<not> gackHere e \<and> (\<forall>c. cause e = ErrorCause c \<longrightarrow> errorIsGack c = Some False)"
  by (subst errorIsGack_unfold) (simp split: cause.splits)

lemma errorIsTypeError_False_iff:
  "errorIsTypeError e = Some False \<longleftrightarrow>
     \<not> typeErrorHere e \<and>
     (\<forall>c. cause e = ErrorCause c \<longrightarrow> errorIsTypeError c = Some False)"
  by (subst errorIsTypeError_unfold) (simp split: cause.splits)

text \<open>A match at any depth of the chain is found.\<close>

lemma errorIsGack_nthCause:
  "nthCause n e = Some d \<Longrightarrow> gackHere d \<Longrightarrow> errorIsGack e = Some True"
proof (induction n arbitrary: e)
  case 0
  then show ?case by (subst errorIsGack_True_iff) simp
next
  case (Suc n)
  from Suc.prems(1) obtain c where c: "cause e = ErrorCause c" "nthCause n c = Some d"
    by (auto split: cause.splits)
  from Suc.IH [OF c(2) Suc.prems(2)] c(1) show ?case
    by (subst errorIsGack_True_iff) simp
qed

lemma errorIsTypeError_nthCause:
  "nthCause n e = Some d \<Longrightarrow> typeErrorHere d \<Longrightarrow> errorIsTypeError e = Some True"
proof (induction n arbitrary: e)
  case 0
  then show ?case by (subst errorIsTypeError_True_iff) simp
next
  case (Suc n)
  from Suc.prems(1) obtain c where c: "cause e = ErrorCause c" "nthCause n c = Some d"
    by (auto split: cause.splits)
  from Suc.IH [OF c(2) Suc.prems(2)] c(1) show ?case
    by (subst errorIsTypeError_True_iff) simp
qed

text \<open>On a chain that ends, both classifiers return.\<close>

lemma errorIsGack_terminates:
  "nthCause n e = None \<Longrightarrow> \<exists>b. errorIsGack e = Some b"
proof (induction n arbitrary: e)
  case 0
  then show ?case by simp
next
  case (Suc n)
  show ?case
  proof (cases "cause e")
    case (ErrorCause c)
    with Suc.prems have "nthCause n c = None" by simp
    then obtain b where "errorIsGack c = Some b" using Suc.IH by blast
    with ErrorCause show ?thesis by (subst errorIsGack_unfold) auto
  next
    case NoCause
    then show ?thesis by (subst errorIsGack_unfold) auto
  next
    case (NonErrorCause v)
    then show ?thesis by (subst errorIsGack_unfold) auto
  qed
qed

lemma errorIsTypeError_terminates:
  "nthCause n e = None \<Longrightarrow> \<exists>b. errorIsTypeError e = Some b"
proof (induction n arbitrary: e)
  case 0
  then show ?case by simp
next
  case (Suc n)
  show ?case
  proof (cases "cause e")
    case (ErrorCause c)
    with Suc.prems have "nthCause n c = None" by simp
    then obtain b where "errorIsTypeError c = Some b" using Suc.IH by blast
    with ErrorCause show ?thesis by (subst errorIsTypeError_unfold) auto
  next
    case NoCause
    then show ?thesis by (subst errorIsTypeError_unfold) auto
  next
    case (NonErrorCause v)
    then show ?thesis by (subst errorIsTypeError_unfold) auto
  qed
qed

text \<open>A chain on which the recursion returns ends, or holds a match.\<close>

lemma errorIsGack_returns_only_if:
  assumes "errorIsGack e = Some b"
  shows "\<exists>n. nthCause n e = None \<or> (\<exists>d. nthCause n e = Some d \<and> gackHere d)"
proof (rule errorIsGack.raw_induct
    [where P = "\<lambda>x y. \<exists>n. nthCause n x = None \<or> (\<exists>d. nthCause n x = Some d \<and> gackHere d)",
      OF _ assms])
  fix f x y
  assume IH: "\<And>x y. f x = Some y \<Longrightarrow>
      \<exists>n. nthCause n x = None \<or> (\<exists>d. nthCause n x = Some d \<and> gackHere d)"
    and eq: "(if regexTest gackRegex (message (props x)) then Some True
        else if case stack (props x) of None \<Rightarrow> False | Some s \<Rightarrow> regexTest gackRegex s
          then Some True
        else case cause x of NoCause \<Rightarrow> Some False | NonErrorCause v \<Rightarrow> Some False
             | ErrorCause c \<Rightarrow> f c) = Some y"
  show "\<exists>n. nthCause n x = None \<or> (\<exists>d. nthCause n x = Some d \<and> gackHere d)"
  proof (cases "gackHere x")
    case True
    then have "nthCause 0 x = Some x \<and> gackHere x" by simp
    then show ?thesis by blast
  next
    case False
    show ?thesis
    proof (cases "cause x")
      case NoCause
      then have "nthCause (Suc 0) x = None" by simp
      then show ?thesis by blast
    next
      case (NonErrorCause v)
      then have "nthCause (Suc 0) x = None" by simp
      then show ?thesis by blast
    next
      case (ErrorCause c)
      with eq False have "f c = Some y" by (simp add: gackHere_def split: if_splits)
      from IH [OF this] obtain n
        where "nthCause n c = None \<or> (\<exists>d. nthCause n c = Some d \<and> gackHere d)" by blast
      with ErrorCause
      have "nthCause (Suc n) x = None \<or> (\<exists>d. nthCause (Suc n) x = Some d \<and> gackHere d)"
        by simp
      then show ?thesis by blast
    qed
  qed
qed

lemma errorIsTypeError_returns_only_if:
  assumes "errorIsTypeError e = Some b"
  shows "\<exists>n. nthCause n e = None \<or> (\<exists>d. nthCause n e = Some d \<and> typeErrorHere d)"
proof (rule errorIsTypeError.raw_induct
    [where P = "\<lambda>x y. \<exists>n. nthCause n x = None \<or> (\<exists>d. nthCause n x = Some d \<and> typeErrorHere d)",
      OF _ assms])
  fix f x y
  assume IH: "\<And>x y. f x = Some y \<Longrightarrow>
      \<exists>n. nthCause n x = None \<or> (\<exists>d. nthCause n x = Some d \<and> typeErrorHere d)"
    and eq: "(if instanceofTypeError (props x) then Some True
      else if name (props x) = Some (str ''TypeError'') then Some True
      else if includes_str (message (props x)) (str ''TypeError'') then Some True
      else if (case stack (props x) of None \<Rightarrow> False | Some s \<Rightarrow> includes_str s (str ''TypeError''))
        then Some True
      else (case cause x of
              NoCause \<Rightarrow> Some False
            | NonErrorCause v \<Rightarrow> Some False
            | ErrorCause c \<Rightarrow> f c)) = Some y"
  show "\<exists>n. nthCause n x = None \<or> (\<exists>d. nthCause n x = Some d \<and> typeErrorHere d)"
  proof (cases "typeErrorHere x")
    case True
    then have "nthCause 0 x = Some x \<and> typeErrorHere x" by simp
    then show ?thesis by blast
  next
    case False
    show ?thesis
    proof (cases "cause x")
      case NoCause
      then have "nthCause (Suc 0) x = None" by simp
      then show ?thesis by blast
    next
      case (NonErrorCause v)
      then have "nthCause (Suc 0) x = None" by simp
      then show ?thesis by blast
    next
      case (ErrorCause c)
      with eq False have "f c = Some y" by (simp add: typeErrorHere_def split: if_splits)
      from IH [OF this] obtain n
        where "nthCause n c = None \<or> (\<exists>d. nthCause n c = Some d \<and> typeErrorHere d)" by blast
      with ErrorCause
      have "nthCause (Suc n) x = None \<or> (\<exists>d. nthCause (Suc n) x = Some d \<and> typeErrorHere d)"
        by simp
      then show ?thesis by blast
    qed
  qed
qed

text \<open>The error that is its own cause: every link leads back to it, and it matches nothing.\<close>

lemma no_gack_in_loop: "\<not> regexTest gackRegex (str ''loop'')"
  by code_simp

lemma no_TypeError_in_loop: "\<not> includes_str (str ''loop'') (str ''TypeError'')"
  by code_simp

lemma Error_not_TypeError: "str ''Error'' \<noteq> str ''TypeError''"
  by (simp add: str_def)

lemma not_gackHere_selfCaused: "\<not> gackHere selfCaused"
  by (simp add: gackHere_def plainProps_def no_gack_in_loop)

lemma not_typeErrorHere_selfCaused: "\<not> typeErrorHere selfCaused"
  by (simp add: typeErrorHere_def plainProps_def no_TypeError_in_loop Error_not_TypeError)

lemma nthCause_selfCaused: "nthCause n selfCaused = Some selfCaused"
  by (induction n) (simp_all add: selfCaused_cause.code)

lemma errorIsGack_selfCaused: "errorIsGack selfCaused = None"
proof (cases "errorIsGack selfCaused")
  case (Some b)
  from errorIsGack_returns_only_if [OF this] show ?thesis
    by (simp add: nthCause_selfCaused not_gackHere_selfCaused)
qed simp

lemma regexTest_gackMessage: "regexTest gackRegex gackMessage"
  by code_simp

lemma no_gack_in_failed: "\<not> regexTest gackRegex (str ''failed'')"
  by code_simp

lemma no_TypeError_in_failed: "\<not> includes_str (str ''failed'') (str ''TypeError'')"
  by code_simp

subsection \<open>The gack pattern and the substring search, written out\<close>

text \<open>The language of the gack pattern, written out.\<close>

lemma list_all_isDigit: "list_all isDigit ds \<longleftrightarrow> set ds \<subseteq> set (str ''0123456789'')"
  by (auto simp: list_all_iff isDigit_def)

lemma exactly_gackRegex:
  "exactly gackRegex w \<longleftrightarrow>
     (\<exists>d1 d2 sg d3.
        w = d1 @ str ''-'' @ d2 @ str '' ('' @ sg @ d3 @ str '')'' \<and>
        9 \<le> length d1 \<and> set d1 \<subseteq> set (str ''0123456789'') \<and>
        3 \<le> length d2 \<and> set d2 \<subseteq> set (str ''0123456789'') \<and>
        (sg = [] \<or> sg = str ''-'') \<and>
        7 \<le> length d3 \<and> set d3 \<subseteq> set (str ''0123456789''))"
  (is "?L \<longleftrightarrow> ?R")
proof
  assume ?L
  then obtain d1 d2 d3 where
    d: "9 \<le> length d1" "list_all isDigit d1" "3 \<le> length d2" "list_all isDigit d2"
       "7 \<le> length d3" "list_all isDigit d3"
    and w: "w = d1 @ str ''-'' @ d2 @ str '' ('' @ d3 @ str '')'' \<or>
            w = d1 @ str ''-'' @ d2 @ str '' ('' @ str ''-'' @ d3 @ str '')''"
    unfolding gackRegex_def by (auto simp: str_def)
  from w have "\<exists>sg. w = d1 @ str ''-'' @ d2 @ str '' ('' @ sg @ d3 @ str '')'' \<and>
      (sg = [] \<or> sg = str ''-'')"
    by auto
  with d show ?R unfolding list_all_isDigit by blast
next
  assume ?R
  then obtain d1 d2 sg d3 where
    w: "w = d1 @ str ''-'' @ d2 @ str '' ('' @ sg @ d3 @ str '')''"
    and d: "9 \<le> length d1" "list_all isDigit d1" "3 \<le> length d2" "list_all isDigit d2"
       "7 \<le> length d3" "list_all isDigit d3"
    and sg: "sg = [] \<or> sg = str ''-''"
    unfolding list_all_isDigit by blast
  have tail: "exactly [Opt (of_char (CHR ''-'')), Digits 7, Lit (of_char (CHR '')''))]
      (sg @ d3 @ str '')'')"
    using sg d(5,6) by (auto simp: str_def)
  have mid: "exactly [Digits 3, Lit (of_char (CHR '' '')), Lit (of_char (CHR ''('')),
      Opt (of_char (CHR ''-'')), Digits 7, Lit (of_char (CHR '')''))]
      (d2 @ str '' ('' @ sg @ d3 @ str '')'')"
    unfolding exactly.simps(4)
    using d(3,4) tail by (intro exI [of _ d2] exI [of _ "str '' ('' @ sg @ d3 @ str '')''"])
      (simp add: str_def)
  show ?L
    unfolding gackRegex_def w exactly.simps(4)
    using d(1,2) mid
    by (intro exI [of _ d1] exI [of _ "str ''-'' @ d2 @ str '' ('' @ sg @ d3 @ str '')''"])
      (simp add: str_def)
qed

lemma regexTest_gackRegex:
  "regexTest gackRegex s \<longleftrightarrow>
     (\<exists>pre d1 d2 sg d3 post.
        s = pre @ d1 @ str ''-'' @ d2 @ str '' ('' @ sg @ d3 @ str '')'' @ post \<and>
        9 \<le> length d1 \<and> set d1 \<subseteq> set (str ''0123456789'') \<and>
        3 \<le> length d2 \<and> set d2 \<subseteq> set (str ''0123456789'') \<and>
        (sg = [] \<or> sg = str ''-'') \<and>
        7 \<le> length d3 \<and> set d3 \<subseteq> set (str ''0123456789''))"
  (is "?L \<longleftrightarrow> ?R")
proof
  assume ?L
  then obtain pre w post where s: "s = pre @ w @ post" and "exactly gackRegex w"
    unfolding regexTest_exactly by blast
  then obtain d1 d2 sg d3 where
    w: "w = d1 @ str ''-'' @ d2 @ str '' ('' @ sg @ d3 @ str '')''"
    and d: "9 \<le> length d1" "set d1 \<subseteq> set (str ''0123456789'')"
       "3 \<le> length d2" "set d2 \<subseteq> set (str ''0123456789'')"
       "sg = [] \<or> sg = str ''-''"
       "7 \<le> length d3" "set d3 \<subseteq> set (str ''0123456789'')"
    unfolding exactly_gackRegex by blast
  have "s = pre @ d1 @ str ''-'' @ d2 @ str '' ('' @ sg @ d3 @ str '')'' @ post"
    unfolding s w by simp
  with d show ?R by blast
next
  assume ?R
  then obtain pre d1 d2 sg d3 post where
    s: "s = pre @ d1 @ str ''-'' @ d2 @ str '' ('' @ sg @ d3 @ str '')'' @ post"
    and d: "9 \<le> length d1" "set d1 \<subseteq> set (str ''0123456789'')"
       "3 \<le> length d2" "set d2 \<subseteq> set (str ''0123456789'')"
       "sg = [] \<or> sg = str ''-''"
       "7 \<le> length d3" "set d3 \<subseteq> set (str ''0123456789'')"
    by blast
  have "exactly gackRegex (d1 @ str ''-'' @ d2 @ str '' ('' @ sg @ d3 @ str '')'')"
    unfolding exactly_gackRegex using d by blast
  moreover have "s = pre @ (d1 @ str ''-'' @ d2 @ str '' ('' @ sg @ d3 @ str '')'') @ post"
    unfolding s by simp
  ultimately show ?L unfolding regexTest_exactly by blast
qed

lemma includes_str_iff: "includes_str s pat \<longleftrightarrow> (\<exists>pre post. s = pre @ pat @ post)"
  by (simp add: includes_str_def sublist_def)

text \<open>The \<open>TypeError\<close> that is its own cause: found to be one, but never found not to be a gack.\<close>

lemma nthCause_selfCausedTypeError: "nthCause n selfCausedTypeError = Some selfCausedTypeError"
  by (induction n) (simp_all add: selfCausedTypeError_cause.code)

lemma not_gackHere_selfCausedTypeError: "\<not> gackHere selfCausedTypeError"
  by (simp add: gackHere_def plainProps_def no_gack_in_loop)

lemma errorIsGack_selfCausedTypeError: "errorIsGack selfCausedTypeError = None"
proof (cases "errorIsGack selfCausedTypeError")
  case (Some b)
  from errorIsGack_returns_only_if [OF this] show ?thesis
    by (simp add: nthCause_selfCausedTypeError not_gackHere_selfCausedTypeError)
qed simp

lemma errorIsTypeError_selfCausedTypeError: "errorIsTypeError selfCausedTypeError = Some True"
  by (subst errorIsTypeError_unfold) (simp add: typeErrorHere_def)

subsection \<open>Exit codes\<close>

lemma computeErrorCode_gack:
  "errorIsGack e = Some True \<Longrightarrow> computeErrorCode pec e = Some (Inr (Integral 20))"
  by (simp add: computeErrorCode_def)

lemma computeErrorCode_typeError:
  "errorIsGack e = Some False \<Longrightarrow> errorIsTypeError e = Some True \<Longrightarrow>
     computeErrorCode pec e = Some (Inr (Integral 10))"
  by (simp add: computeErrorCode_def)

lemma computeErrorCode_no_result:
  "errorIsGack e = None \<Longrightarrow> computeErrorCode pec e = None"
  by (simp add: computeErrorCode_def)

lemma asNumber_case: "asNumber v = (case v of JNumber n \<Rightarrow> Some n | _ \<Rightarrow> None)"
  by (cases v) simp_all

text \<open>Reading \<open>oclif.exit\<close> from a value that is neither \<open>undefined\<close> nor \<open>null\<close>.\<close>

lemma readExit_number:
  assumes "oc \<noteq> JUndefined" and "oc \<noteq> JNull"
  shows "(case readExit oc of Inl x \<Rightarrow> Inl x | Inr v \<Rightarrow> Inr (asNumber v)) =
     Inr (case oc of
            JObject kvs \<Rightarrow> (case map_of kvs ''exit'' of Some (JNumber n) \<Rightarrow> Some n | _ \<Rightarrow> None)
          | _ \<Rightarrow> None)"
  using assms by (cases oc) (simp_all add: asNumber_case split: option.splits)

text \<open>The exit code as the first source that applies.\<close>

lemma computeErrorCode_firstMatch:
  assumes "errorIsGack e = Some g" and "\<not> g \<longrightarrow> errorIsTypeError e = Some t"
    and "\<not> g \<and> \<not> t \<longrightarrow>
      oclif (props e) \<noteq> Some JUndefined \<and> oclif (props e) \<noteq> Some JNull"
  shows "computeErrorCode pec e = map_option Inr (firstMatch (exitCodeSources g t pec (props e)))"
proof (cases g)
  case True
  with assms(1) show ?thesis by (simp add: computeErrorCode_def exitCodeSources_def)
next
  case False
  with assms have gt: "errorIsGack e = Some False" "errorIsTypeError e = Some t" by simp_all
  show ?thesis
  proof (cases t)
    case True
    with gt False show ?thesis by (simp add: computeErrorCode_def exitCodeSources_def)
  next
    case f: False
    have oc: "(case oclif (props e) of
                 None \<Rightarrow> Inr None
               | Some oc \<Rightarrow> (case readExit oc of Inl x \<Rightarrow> Inl x | Inr v \<Rightarrow> Inr (asNumber v))) =
        Inr (case oclif (props e) of
               Some (JObject kvs) \<Rightarrow>
                 (case map_of kvs ''exit'' of Some (JNumber n) \<Rightarrow> Some n | _ \<Rightarrow> None)
             | _ \<Rightarrow> None)"
    proof (cases "oclif (props e)")
      case None
      then show ?thesis by simp
    next
      case (Some v)
      with assms(3) False f have "v \<noteq> JUndefined" "v \<noteq> JNull" by auto
      from readExit_number [OF this] Some show ?thesis by (cases v) simp_all
    qed
    have ex: "(case exitCode (props e) of None \<Rightarrow> None | Some v \<Rightarrow> asNumber v) =
        (case exitCode (props e) of Some (JNumber n) \<Rightarrow> Some n | _ \<Rightarrow> None)"
      by (simp add: asNumber_case split: option.splits)
    have co: "(case code (props e) of
                 Some v \<Rightarrow> Some (Inr (case asNumber v of None \<Rightarrow> Integral 1 | Some n \<Rightarrow> n))
               | None \<Rightarrow> Some (Inr (case asNumber pec of None \<Rightarrow> Integral 1 | Some n \<Rightarrow> n))) =
        map_option Inr (firstMatch
          [(case code (props e) of
              None \<Rightarrow> None
            | Some (JNumber n) \<Rightarrow> Some n
            | Some _ \<Rightarrow> Some (Integral 1)),
           (case pec of JNumber n \<Rightarrow> Some n | _ \<Rightarrow> None),
           Some (Integral 1)])"
      by (simp add: asNumber_case split: option.splits jsvalue.splits)
    show ?thesis
      unfolding computeErrorCode_def oc ex co
      using gt False f
      by (simp add: exitCodeSources_def split: option.splits)
  qed
qed

text \<open>
  Claim C1. On an error on which the classifiers return, and whose \<open>oclif\<close> property is
  absent or holds a value other than \<open>undefined\<close> and \<open>null\<close>, \<open>computeErrorCode\<close> takes
  the first source that applies, in this order: a gack gives 20; a \<open>TypeError\<close> gives
  10; a numeric \<open>oclif.exit\<close> gives that value; a numeric \<open>exitCode\<close> gives that value; a
  \<open>code\<close> field that is present gives its value when numeric and 1 otherwise; the exit
  code of the process gives its value when numeric; and 1 is the default. \<open>g\<close> and \<open>t\<close>
  are the results of the two classifiers; the second is only asked for when the first
  is false, and \<open>oclif\<close> is only read when both are. On a cause chain that ends, both
  classifiers return.
\<close>

theorem computeErrorCode_precedence:
  "(errorIsGack e = Some g \<and> (\<not> g \<longrightarrow> errorIsTypeError e = Some t) \<and>
    (\<not> g \<and> \<not> t \<longrightarrow> oclif (props e) \<noteq> Some JUndefined \<and> oclif (props e) \<noteq> Some JNull)
      \<longrightarrow> computeErrorCode pec e =
            map_option Inr (firstMatch (exitCodeSources g t pec (props e)))) \<and>
   (nthCause n e = None \<and> oclif (props e) \<noteq> Some JUndefined \<and> oclif (props e) \<noteq> Some JNull
      \<longrightarrow> (\<exists>g t. errorIsGack e = Some g \<and> errorIsTypeError e = Some t \<and>
            computeErrorCode pec e =
              map_option Inr (firstMatch (exitCodeSources g t pec (props e)))))"
proof (intro conjI impI)
  assume "errorIsGack e = Some g \<and> (\<not> g \<longrightarrow> errorIsTypeError e = Some t) \<and>
    (\<not> g \<and> \<not> t \<longrightarrow> oclif (props e) \<noteq> Some JUndefined \<and> oclif (props e) \<noteq> Some JNull)"
  then show "computeErrorCode pec e =
      map_option Inr (firstMatch (exitCodeSources g t pec (props e)))"
    using computeErrorCode_firstMatch [of e g t pec] by blast
next
  assume a: "nthCause n e = None \<and> oclif (props e) \<noteq> Some JUndefined \<and>
    oclif (props e) \<noteq> Some JNull"
  then have fin: "nthCause n e = None" by simp
  obtain g where g: "errorIsGack e = Some g"
    using errorIsGack_terminates [OF fin] by blast
  obtain t where t: "errorIsTypeError e = Some t"
    using errorIsTypeError_terminates [OF fin] by blast
  have "computeErrorCode pec e = map_option Inr (firstMatch (exitCodeSources g t pec (props e)))"
    using g t a computeErrorCode_firstMatch [of e g t pec] by blast
  with g t show "\<exists>g t. errorIsGack e = Some g \<and> errorIsTypeError e = Some t \<and>
      computeErrorCode pec e = map_option Inr (firstMatch (exitCodeSources g t pec (props e)))"
    by blast
qed

text \<open>
  The examples of the specification: \<open>oclif.exit = 5\<close> with \<open>exitCode = 7\<close> gives 5;
  \<open>exitCode = 3\<close> alone gives 3; \<open>code = 'ABC'\<close> gives 1, also when the exit code of
  the process is 2; \<open>code = 4\<close> gives 4; none of these and no exit code of the process
  gives 1. With \<open>oclif\<close> holding the number 5, or an object whose \<open>exit\<close> is a string,
  \<open>exitCode = 7\<close> gives 7.
\<close>

theorem computeErrorCode_precedence_witness:
  "errorIsGack oclifError = Some False \<and> errorIsTypeError oclifError = Some False \<and>
   oclif (props oclifError) = Some (JObject [(''exit'', JNumber (Integral 5))]) \<and>
   computeErrorCode JUndefined oclifError = Some (Inr (Integral 5)) \<and>
   computeErrorCode JUndefined
     (Error ((plainProps (str ''failed''))\<lparr>exitCode := Some (JNumber (Integral 3))\<rparr>) NoCause) =
     Some (Inr (Integral 3)) \<and>
   computeErrorCode (JNumber (Integral 2))
     (Error ((plainProps (str ''failed''))\<lparr>code := Some (JString (str ''ABC''))\<rparr>) NoCause) =
     Some (Inr (Integral 1)) \<and>
   computeErrorCode JUndefined
     (Error ((plainProps (str ''failed''))\<lparr>code := Some (JNumber (Integral 4))\<rparr>) NoCause) =
     Some (Inr (Integral 4)) \<and>
   computeErrorCode JUndefined (Error (plainProps (str ''failed'')) NoCause) =
     Some (Inr (Integral 1)) \<and>
   computeErrorCode (JNumber (Integral 2)) (Error (plainProps (str ''failed'')) NoCause) =
     Some (Inr (Integral 2)) \<and>
   computeErrorCode JUndefined
     (Error ((plainProps (str ''failed''))
        \<lparr>oclif := Some (JNumber (Integral 5)), exitCode := Some (JNumber (Integral 7))\<rparr>)
        NoCause) =
     Some (Inr (Integral 7)) \<and>
   computeErrorCode JUndefined
     (Error ((plainProps (str ''failed''))
        \<lparr>oclif := Some (JObject [(''exit'', JString (str ''5''))]),
         exitCode := Some (JNumber (Integral 7))\<rparr>)
        NoCause) =
     Some (Inr (Integral 7)) \<and>
   nthCause 1 oclifError = None \<and>
   (\<exists>g t. errorIsGack oclifError = Some g \<and> errorIsTypeError oclifError = Some t \<and>
      computeErrorCode JNull oclifError =
        map_option Inr (firstMatch (exitCodeSources g t JNull (props oclifError))))"
proof -
  have g: "errorIsGack oclifError = Some False"
    unfolding oclifError_def
    by (subst errorIsGack_unfold) (simp add: gackHere_def plainProps_def no_gack_in_failed)
  have t: "errorIsTypeError oclifError = Some False"
    unfolding oclifError_def
    by (subst errorIsTypeError_unfold)
      (simp add: typeErrorHere_def plainProps_def no_TypeError_in_failed Error_not_TypeError)
  have o: "oclif (props oclifError) = Some (JObject [(''exit'', JNumber (Integral 5))])"
    by (simp add: oclifError_def plainProps_def)
  have a: "computeErrorCode JUndefined oclifError = Some (Inr (Integral 5))"
    using computeErrorCode_precedence [of oclifError False False JUndefined] g t o
    by (simp add: exitCodeSources_def oclifError_def plainProps_def)
  have ng: "errorIsGack
      (Error ((plainProps (str ''failed''))\<lparr>oclif := z, exitCode := x, code := y\<rparr>) NoCause) =
      Some False" for x y z
    by (subst errorIsGack_unfold) (simp add: gackHere_def plainProps_def no_gack_in_failed)
  have nt: "errorIsTypeError
      (Error ((plainProps (str ''failed''))\<lparr>oclif := z, exitCode := x, code := y\<rparr>) NoCause) =
      Some False" for x y z
    by (subst errorIsTypeError_unfold)
      (simp add: typeErrorHere_def plainProps_def no_TypeError_in_failed Error_not_TypeError)
  have r: "computeErrorCode pec
      (Error ((plainProps (str ''failed''))\<lparr>oclif := z, exitCode := x, code := y\<rparr>) NoCause) =
      map_option Inr (firstMatch (exitCodeSources False False pec
        (props (Error ((plainProps (str ''failed''))\<lparr>oclif := z, exitCode := x, code := y\<rparr>)
           NoCause))))"
    if "z \<noteq> Some JUndefined" "z \<noteq> Some JNull" for pec x y z
    using computeErrorCode_precedence
      [of "Error ((plainProps (str ''failed''))\<lparr>oclif := z, exitCode := x, code := y\<rparr>) NoCause"
        False False pec]
      ng nt that by simp
  have b: "computeErrorCode JUndefined
     (Error ((plainProps (str ''failed''))\<lparr>exitCode := Some (JNumber (Integral 3))\<rparr>) NoCause) =
     Some (Inr (Integral 3))"
    using r [where pec = JUndefined and x = "Some (JNumber (Integral 3))" and y = None
        and z = None]
    by (simp add: exitCodeSources_def plainProps_def)
  have c: "computeErrorCode (JNumber (Integral 2))
     (Error ((plainProps (str ''failed''))\<lparr>code := Some (JString (str ''ABC''))\<rparr>) NoCause) =
     Some (Inr (Integral 1))"
    using r [where pec = "JNumber (Integral 2)" and x = None
        and y = "Some (JString (str ''ABC''))" and z = None]
    by (simp add: exitCodeSources_def plainProps_def)
  have d: "computeErrorCode JUndefined
     (Error ((plainProps (str ''failed''))\<lparr>code := Some (JNumber (Integral 4))\<rparr>) NoCause) =
     Some (Inr (Integral 4))"
    using r [where pec = JUndefined and x = None and y = "Some (JNumber (Integral 4))"
        and z = None]
    by (simp add: exitCodeSources_def plainProps_def)
  have e: "computeErrorCode JUndefined (Error (plainProps (str ''failed'')) NoCause) =
      Some (Inr (Integral 1))"
    using r [where pec = JUndefined and x = None and y = None and z = None]
    by (simp add: exitCodeSources_def plainProps_def)
  have e2: "computeErrorCode (JNumber (Integral 2)) (Error (plainProps (str ''failed'')) NoCause) =
      Some (Inr (Integral 2))"
    using r [where pec = "JNumber (Integral 2)" and x = None and y = None and z = None]
    by (simp add: exitCodeSources_def plainProps_def)
  have h: "computeErrorCode JUndefined
     (Error ((plainProps (str ''failed''))
        \<lparr>oclif := Some (JNumber (Integral 5)), exitCode := Some (JNumber (Integral 7))\<rparr>)
        NoCause) =
     Some (Inr (Integral 7))"
    using r [where pec = JUndefined and x = "Some (JNumber (Integral 7))" and y = None
        and z = "Some (JNumber (Integral 5))"]
    by (simp add: exitCodeSources_def plainProps_def)
  have i: "computeErrorCode JUndefined
     (Error ((plainProps (str ''failed''))
        \<lparr>oclif := Some (JObject [(''exit'', JString (str ''5''))]),
         exitCode := Some (JNumber (Integral 7))\<rparr>)
        NoCause) =
     Some (Inr (Integral 7))"
    using r [where pec = JUndefined and x = "Some (JNumber (Integral 7))" and y = None
        and z = "Some (JObject [(''exit'', JString (str ''5''))])"]
    by (simp add: exitCodeSources_def plainProps_def)
  have n: "nthCause 1 oclifError = None" by (simp add: oclifError_def)
  have f: "\<exists>g t. errorIsGack oclifError = Some g \<and> errorIsTypeError oclifError = Some t \<and>
      computeErrorCode JNull oclifError =
        map_option Inr (firstMatch (exitCodeSources g t JNull (props oclifError)))"
    using computeErrorCode_precedence [where e = oclifError and n = 1 and pec = JNull] n o
    by simp
  from g t o a b c d e e2 h i n f show ?thesis by blast
qed

text \<open>
  With the key \<open>oclif\<close> present and \<open>undefined\<close>, and \<open>exitCode = 7\<close>, reading
  \<open>e.oclif.exit\<close> throws and 7 is not returned. On the \<open>TypeError\<close> that is its own
  cause, the search for a gack does not return and 10 is not returned.
\<close>

theorem computeErrorCode_throws_or_no_result:
  "exitCode (props oclifUndefined) = Some (JNumber (Integral 7)) \<and>
   computeErrorCode JUndefined oclifUndefined = Some (Inl TypeError_reading_nullish) \<and>
   errorIsTypeError selfCausedTypeError = Some True \<and>
   computeErrorCode JUndefined selfCausedTypeError = None"
proof -
  have g: "errorIsGack oclifUndefined = Some False"
    unfolding oclifUndefined_def
    by (subst errorIsGack_unfold) (simp add: gackHere_def plainProps_def no_gack_in_failed)
  have t: "errorIsTypeError oclifUndefined = Some False"
    unfolding oclifUndefined_def
    by (subst errorIsTypeError_unfold)
      (simp add: typeErrorHere_def plainProps_def no_TypeError_in_failed Error_not_TypeError)
  have "computeErrorCode JUndefined oclifUndefined = Some (Inl TypeError_reading_nullish)"
    using g t by (simp add: computeErrorCode_def) (simp add: oclifUndefined_def plainProps_def)
  moreover have "exitCode (props oclifUndefined) = Some (JNumber (Integral 7))"
    by (simp add: oclifUndefined_def plainProps_def)
  ultimately show ?thesis
    by (simp add: errorIsTypeError_selfCausedTypeError computeErrorCode_no_result
        errorIsGack_selfCausedTypeError)
qed

text \<open>
  Claim C3. The gack pattern matches a string exactly when the string holds, one after
  the other, at least nine decimal digits, a hyphen, at least three digits, a space, an
  opening parenthesis, an optional hyphen, at least seven digits and a closing
  parenthesis. \<open>errorIsGack\<close> returns true exactly when the message matches the
  pattern, or the stack is a string that matches it, or the cause is an error on which
  \<open>errorIsGack\<close> returns true; it returns false exactly when none of the two matches
  and it returns false on the cause, if that is an error. A match found after any
  number \<open>n\<close> of cause links makes it true. On every gack \<open>computeErrorCode\<close> returns
  20, whatever the other fields hold.
\<close>

theorem errorIsGack_iff:
  "(regexTest gackRegex s \<longleftrightarrow>
      (\<exists>pre d1 d2 sg d3 post.
         s = pre @ d1 @ str ''-'' @ d2 @ str '' ('' @ sg @ d3 @ str '')'' @ post \<and>
         9 \<le> length d1 \<and> set d1 \<subseteq> set (str ''0123456789'') \<and>
         3 \<le> length d2 \<and> set d2 \<subseteq> set (str ''0123456789'') \<and>
         (sg = [] \<or> sg = str ''-'') \<and>
         7 \<le> length d3 \<and> set d3 \<subseteq> set (str ''0123456789''))) \<and>
   (errorIsGack e = Some True \<longleftrightarrow>
      regexTest gackRegex (message (props e)) \<or>
      (\<exists>st. stack (props e) = Some st \<and> regexTest gackRegex st) \<or>
      (\<exists>c. cause e = ErrorCause c \<and> errorIsGack c = Some True)) \<and>
   (errorIsGack e = Some False \<longleftrightarrow>
      \<not> regexTest gackRegex (message (props e)) \<and>
      \<not> (\<exists>st. stack (props e) = Some st \<and> regexTest gackRegex st) \<and>
      (\<forall>c. cause e = ErrorCause c \<longrightarrow> errorIsGack c = Some False)) \<and>
   (nthCause n e = Some d \<and>
      (regexTest gackRegex (message (props d)) \<or>
       (\<exists>st. stack (props d) = Some st \<and> regexTest gackRegex st))
      \<longrightarrow> errorIsGack e = Some True) \<and>
   (errorIsGack e = Some True \<longrightarrow> computeErrorCode pec e = Some (Inr (Integral 20)))"
proof (intro conjI)
  have here: "gackHere x \<longleftrightarrow>
      regexTest gackRegex (message (props x)) \<or>
      (\<exists>st. stack (props x) = Some st \<and> regexTest gackRegex st)" for x
    by (auto simp: gackHere_def split: option.splits)
  show "regexTest gackRegex s \<longleftrightarrow>
      (\<exists>pre d1 d2 sg d3 post.
         s = pre @ d1 @ str ''-'' @ d2 @ str '' ('' @ sg @ d3 @ str '')'' @ post \<and>
         9 \<le> length d1 \<and> set d1 \<subseteq> set (str ''0123456789'') \<and>
         3 \<le> length d2 \<and> set d2 \<subseteq> set (str ''0123456789'') \<and>
         (sg = [] \<or> sg = str ''-'') \<and>
         7 \<le> length d3 \<and> set d3 \<subseteq> set (str ''0123456789''))"
    by (rule regexTest_gackRegex)
  show "errorIsGack e = Some True \<longleftrightarrow>
      regexTest gackRegex (message (props e)) \<or>
      (\<exists>st. stack (props e) = Some st \<and> regexTest gackRegex st) \<or>
      (\<exists>c. cause e = ErrorCause c \<and> errorIsGack c = Some True)"
    using errorIsGack_True_iff [of e] here [of e] by blast
  show "errorIsGack e = Some False \<longleftrightarrow>
      \<not> regexTest gackRegex (message (props e)) \<and>
      \<not> (\<exists>st. stack (props e) = Some st \<and> regexTest gackRegex st) \<and>
      (\<forall>c. cause e = ErrorCause c \<longrightarrow> errorIsGack c = Some False)"
    using errorIsGack_False_iff [of e] here [of e] by blast
  show "nthCause n e = Some d \<and>
      (regexTest gackRegex (message (props d)) \<or>
       (\<exists>st. stack (props d) = Some st \<and> regexTest gackRegex st))
      \<longrightarrow> errorIsGack e = Some True"
    using errorIsGack_nthCause [of n e d] here [of d] by blast
  show "errorIsGack e = Some True \<longrightarrow> computeErrorCode pec e = Some (Inr (Integral 20))"
    by (simp add: computeErrorCode_gack)
qed

text \<open>
  The message of \<open>gackError\<close> splits as the pattern asks, so it is a gack, also two
  causes deep under an error with \<open>exitCode = 7\<close>, where the exit code is 20; so is an
  error with the id in its stack. An id with eight leading digits is not a gack.
\<close>

theorem errorIsGack_iff_witness:
  "regexTest gackRegex (message (props gackError)) \<and>
   errorIsGack gackError = Some True \<and>
   errorIsGack gackInStack = Some True \<and>
   \<not> regexTest gackRegex (message (props shortIdError)) \<and>
   errorIsGack shortIdError = Some False \<and>
   nthCause 2 wrappedGack = Some gackError \<and>
   errorIsGack wrappedGack = Some True \<and>
   exitCode (props wrappedGack) = Some (JNumber (Integral 7)) \<and>
   computeErrorCode JUndefined wrappedGack = Some (Inr (Integral 20))"
proof -
  have split: "message (props gackError) =
      str ''UNKNOWN_EXCEPTION: ErrorId '' @ str ''1746355797'' @ str ''-'' @ str ''176884'' @
      str '' ('' @ str ''-'' @ str ''1345328791'' @ str '')'' @ []"
    by (simp add: gackError_def plainProps_def gackMessage_def str_def)
  have digits: "set (str ''1746355797'') \<subseteq> set (str ''0123456789'')"
    "set (str ''176884'') \<subseteq> set (str ''0123456789'')"
    "set (str ''1345328791'') \<subseteq> set (str ''0123456789'')"
    by (simp_all add: str_def)
  have lens: "9 \<le> length (str ''1746355797'')" "3 \<le> length (str ''176884'')"
    "7 \<le> length (str ''1345328791'')"
    by (simp_all add: str_def)
  have "\<exists>pre d1 d2 sg d3 post.
      message (props gackError) =
        pre @ d1 @ str ''-'' @ d2 @ str '' ('' @ sg @ d3 @ str '')'' @ post \<and>
      9 \<le> length d1 \<and> set d1 \<subseteq> set (str ''0123456789'') \<and>
      3 \<le> length d2 \<and> set d2 \<subseteq> set (str ''0123456789'') \<and>
      (sg = [] \<or> sg = str ''-'') \<and>
      7 \<le> length d3 \<and> set d3 \<subseteq> set (str ''0123456789'')"
    by (rule exI [of _ "str ''UNKNOWN_EXCEPTION: ErrorId ''"], rule exI [of _ "str ''1746355797''"],
        rule exI [of _ "str ''176884''"], rule exI [of _ "str ''-''"],
        rule exI [of _ "str ''1345328791''"], rule exI [of _ "[]"])
      (simp only: split digits lens simp_thms)
  then have m: "regexTest gackRegex (message (props gackError))"
    by (simp only: errorIsGack_iff [of "message (props gackError)", THEN conjunct1])
  then have g0: "errorIsGack gackError = Some True"
    by (simp only: errorIsGack_iff [where e = gackError, THEN conjunct2, THEN conjunct1]
        simp_thms)
  have st: "stack (props gackInStack) =
      Some (str ''Error: failed 1746355797-176884 (1345328791) at run'')"
    by (simp add: gackInStack_def plainProps_def)
  have split2: "str ''Error: failed 1746355797-176884 (1345328791) at run'' =
      str ''Error: failed '' @ str ''1746355797'' @ str ''-'' @ str ''176884'' @
      str '' ('' @ [] @ str ''1345328791'' @ str '')'' @ str '' at run''"
    by (simp add: str_def)
  have "\<exists>pre d1 d2 sg d3 post.
      str ''Error: failed 1746355797-176884 (1345328791) at run'' =
        pre @ d1 @ str ''-'' @ d2 @ str '' ('' @ sg @ d3 @ str '')'' @ post \<and>
      9 \<le> length d1 \<and> set d1 \<subseteq> set (str ''0123456789'') \<and>
      3 \<le> length d2 \<and> set d2 \<subseteq> set (str ''0123456789'') \<and>
      (sg = [] \<or> sg = str ''-'') \<and>
      7 \<le> length d3 \<and> set d3 \<subseteq> set (str ''0123456789'')"
    by (rule exI [of _ "str ''Error: failed ''"], rule exI [of _ "str ''1746355797''"],
        rule exI [of _ "str ''176884''"], rule exI [of _ "[]"],
        rule exI [of _ "str ''1345328791''"], rule exI [of _ "str '' at run''"])
      (simp only: split2 [symmetric] digits lens simp_thms)
  then have "regexTest gackRegex (str ''Error: failed 1746355797-176884 (1345328791) at run'')"
    by (simp only: errorIsGack_iff
        [of "str ''Error: failed 1746355797-176884 (1345328791) at run''", THEN conjunct1])
  with st have g1: "errorIsGack gackInStack = Some True"
    by (simp add: errorIsGack_iff [where e = gackInStack, THEN conjunct2, THEN conjunct1])
  have nm: "\<not> regexTest gackRegex (message (props shortIdError))"
    unfolding shortIdError_def plainProps_def by code_simp
  have "stack (props shortIdError) = None" "cause shortIdError = NoCause"
    by (simp_all add: shortIdError_def plainProps_def)
  with nm have g2: "errorIsGack shortIdError = Some False"
    by (simp add: errorIsGack_iff
        [where e = shortIdError, THEN conjunct2, THEN conjunct2, THEN conjunct1])
  have n: "nthCause 2 wrappedGack = Some gackError"
    by (simp add: wrappedGack_def numeral_2_eq_2)
  have g: "errorIsGack wrappedGack = Some True"
    using n m
    by (simp add: errorIsGack_iff [where e = wrappedGack and n = 2 and d = gackError,
          THEN conjunct2, THEN conjunct2, THEN conjunct2, THEN conjunct1])
  have c: "computeErrorCode JUndefined wrappedGack = Some (Inr (Integral 20))"
    using g
    by (simp add: errorIsGack_iff [where e = wrappedGack and pec = JUndefined,
          THEN conjunct2, THEN conjunct2, THEN conjunct2, THEN conjunct2])
  have x: "exitCode (props wrappedGack) = Some (JNumber (Integral 7))"
    by (simp add: wrappedGack_def plainProps_def)
  from m g0 g1 nm g2 n g c x show ?thesis by simp
qed

text \<open>
  Claim C4. A string includes \<open>'TypeError'\<close> exactly when it holds these nine code
  units in a row. \<open>errorIsTypeError\<close> returns true exactly when the error is an
  instance of \<open>TypeError\<close>, or its name is \<open>'TypeError'\<close>, or its message or its stack
  includes \<open>'TypeError'\<close>, or the cause is an error on which \<open>errorIsTypeError\<close> returns
  true. On such an error \<open>computeErrorCode\<close> returns 10 when the search for a gack
  returns false and 20 when it returns true; on a cause chain that ends the search
  returns, so the exit code is one or the other.
\<close>

theorem errorIsTypeError_iff:
  "str ''TypeError'' = [0x54, 0x79, 0x70, 0x65, 0x45, 0x72, 0x72, 0x6F, 0x72] \<and>
   (includes_str s (str ''TypeError'') \<longleftrightarrow> (\<exists>pre post. s = pre @ str ''TypeError'' @ post)) \<and>
   (errorIsTypeError e = Some True \<longleftrightarrow>
      instanceofTypeError (props e) \<or>
      name (props e) = Some (str ''TypeError'') \<or>
      includes_str (message (props e)) (str ''TypeError'') \<or>
      (\<exists>st. stack (props e) = Some st \<and> includes_str st (str ''TypeError'')) \<or>
      (\<exists>c. cause e = ErrorCause c \<and> errorIsTypeError c = Some True)) \<and>
   (errorIsTypeError e = Some False \<longleftrightarrow>
      \<not> instanceofTypeError (props e) \<and>
      name (props e) \<noteq> Some (str ''TypeError'') \<and>
      \<not> includes_str (message (props e)) (str ''TypeError'') \<and>
      \<not> (\<exists>st. stack (props e) = Some st \<and> includes_str st (str ''TypeError'')) \<and>
      (\<forall>c. cause e = ErrorCause c \<longrightarrow> errorIsTypeError c = Some False)) \<and>
   (errorIsTypeError e = Some True \<and> errorIsGack e = Some False
      \<longrightarrow> computeErrorCode pec e = Some (Inr (Integral 10))) \<and>
   (errorIsTypeError e = Some True \<and> errorIsGack e = Some True
      \<longrightarrow> computeErrorCode pec e = Some (Inr (Integral 20))) \<and>
   (errorIsTypeError e = Some True \<and> nthCause n e = None
      \<longrightarrow> computeErrorCode pec e =
            Some (Inr (if errorIsGack e = Some True then Integral 20 else Integral 10)))"
proof (intro conjI)
  have here: "typeErrorHere e \<longleftrightarrow>
      instanceofTypeError (props e) \<or>
      name (props e) = Some (str ''TypeError'') \<or>
      includes_str (message (props e)) (str ''TypeError'') \<or>
      (\<exists>st. stack (props e) = Some st \<and> includes_str st (str ''TypeError''))"
    by (auto simp: typeErrorHere_def split: option.splits)
  show "str ''TypeError'' = [0x54, 0x79, 0x70, 0x65, 0x45, 0x72, 0x72, 0x6F, 0x72]"
    by (simp add: str_def)
  show "includes_str s (str ''TypeError'') \<longleftrightarrow> (\<exists>pre post. s = pre @ str ''TypeError'' @ post)"
    by (rule includes_str_iff)
  show "errorIsTypeError e = Some True \<longleftrightarrow>
      instanceofTypeError (props e) \<or>
      name (props e) = Some (str ''TypeError'') \<or>
      includes_str (message (props e)) (str ''TypeError'') \<or>
      (\<exists>st. stack (props e) = Some st \<and> includes_str st (str ''TypeError'')) \<or>
      (\<exists>c. cause e = ErrorCause c \<and> errorIsTypeError c = Some True)"
    using errorIsTypeError_True_iff [of e] here by blast
  show "errorIsTypeError e = Some False \<longleftrightarrow>
      \<not> instanceofTypeError (props e) \<and>
      name (props e) \<noteq> Some (str ''TypeError'') \<and>
      \<not> includes_str (message (props e)) (str ''TypeError'') \<and>
      \<not> (\<exists>st. stack (props e) = Some st \<and> includes_str st (str ''TypeError'')) \<and>
      (\<forall>c. cause e = ErrorCause c \<longrightarrow> errorIsTypeError c = Some False)"
    using errorIsTypeError_False_iff [of e] here by blast
  show "errorIsTypeError e = Some True \<and> errorIsGack e = Some False
      \<longrightarrow> computeErrorCode pec e = Some (Inr (Integral 10))"
    by (simp add: computeErrorCode_typeError)
  show "errorIsTypeError e = Some True \<and> errorIsGack e = Some True
      \<longrightarrow> computeErrorCode pec e = Some (Inr (Integral 20))"
    by (simp add: computeErrorCode_gack)
  show "errorIsTypeError e = Some True \<and> nthCause n e = None
      \<longrightarrow> computeErrorCode pec e =
            Some (Inr (if errorIsGack e = Some True then Integral 20 else Integral 10))"
  proof (intro impI)
    assume a: "errorIsTypeError e = Some True \<and> nthCause n e = None"
    then have fin: "nthCause n e = None" by simp
    obtain g where g: "errorIsGack e = Some g"
      using errorIsGack_terminates [OF fin] by blast
    show "computeErrorCode pec e =
            Some (Inr (if errorIsGack e = Some True then Integral 20 else Integral 10))"
      using a g by (cases g) (simp_all add: computeErrorCode_def)
  qed
qed

text \<open>
  \<open>'TypeError'\<close> in the message alone, or in the stack alone, makes a \<open>TypeError\<close>, and
  the exit code is 10; \<open>'Type Error'\<close> does not. An instance of \<open>TypeError\<close> with
  \<open>exitCode = 7\<close> gives 10, and 20 with a gack as its cause.
\<close>

theorem errorIsTypeError_iff_witness:
  "includes_str (message (props typeErrorInMessage)) (str ''TypeError'') \<and>
   \<not> instanceofTypeError (props typeErrorInMessage) \<and>
   name (props typeErrorInMessage) \<noteq> Some (str ''TypeError'') \<and>
   errorIsTypeError typeErrorInMessage = Some True \<and>
   errorIsGack typeErrorInMessage = Some False \<and>
   computeErrorCode JUndefined typeErrorInMessage = Some (Inr (Integral 10)) \<and>
   \<not> includes_str (message (props typeErrorInStack)) (str ''TypeError'') \<and>
   errorIsTypeError typeErrorInStack = Some True \<and>
   \<not> includes_str (message (props noTypeError)) (str ''TypeError'') \<and>
   errorIsTypeError noTypeError = Some False \<and>
   errorIsTypeError typeErrorSample = Some True \<and> errorIsGack typeErrorSample = Some False \<and>
   exitCode (props typeErrorSample) = Some (JNumber (Integral 7)) \<and>
   computeErrorCode JUndefined typeErrorSample = Some (Inr (Integral 10)) \<and>
   errorIsTypeError typeErrorWithGack = Some True \<and>
   errorIsGack typeErrorWithGack = Some True \<and>
   computeErrorCode JUndefined typeErrorWithGack = Some (Inr (Integral 20)) \<and>
   nthCause 2 typeErrorWithGack = None \<and>
   computeErrorCode (JNumber (Integral 2)) typeErrorWithGack = Some (Inr (Integral 20))"
proof -
  have "message (props typeErrorInMessage) =
      str ''Uncaught '' @ str ''TypeError'' @ str '': x is not a function''"
    by (simp add: typeErrorInMessage_def plainProps_def str_def)
  then have "\<exists>pre post. message (props typeErrorInMessage) = pre @ str ''TypeError'' @ post"
    by (intro exI)
  then have im: "includes_str (message (props typeErrorInMessage)) (str ''TypeError'')"
    by (simp only: errorIsTypeError_iff
        [of "message (props typeErrorInMessage)", THEN conjunct2, THEN conjunct1])
  have nm: "\<not> instanceofTypeError (props typeErrorInMessage)"
    "name (props typeErrorInMessage) \<noteq> Some (str ''TypeError'')"
    by (simp_all add: typeErrorInMessage_def plainProps_def Error_not_TypeError)
  have t0: "errorIsTypeError typeErrorInMessage = Some True"
    using im
    by (simp add: errorIsTypeError_iff
        [where e = typeErrorInMessage, THEN conjunct2, THEN conjunct2, THEN conjunct1])
  have g0: "errorIsGack typeErrorInMessage = Some False"
    unfolding typeErrorInMessage_def by code_simp
  have c0: "computeErrorCode JUndefined typeErrorInMessage = Some (Inr (Integral 10))"
    using t0 g0
    by (simp add: errorIsTypeError_iff [where e = typeErrorInMessage and pec = JUndefined,
          THEN conjunct2, THEN conjunct2, THEN conjunct2, THEN conjunct2, THEN conjunct1])
  have st: "stack (props typeErrorInStack) = Some (str ''TypeError: failed at run'')"
    by (simp add: typeErrorInStack_def plainProps_def)
  have "str ''TypeError: failed at run'' = [] @ str ''TypeError'' @ str '': failed at run''"
    by (simp add: str_def)
  then have "\<exists>pre post. str ''TypeError: failed at run'' = pre @ str ''TypeError'' @ post"
    by (intro exI)
  then have "includes_str (str ''TypeError: failed at run'') (str ''TypeError'')"
    by (simp only: errorIsTypeError_iff
        [of "str ''TypeError: failed at run''", THEN conjunct2, THEN conjunct1])
  with st have ts: "errorIsTypeError typeErrorInStack = Some True"
    by (simp add: errorIsTypeError_iff
        [where e = typeErrorInStack, THEN conjunct2, THEN conjunct2, THEN conjunct1])
  have ns: "\<not> includes_str (message (props typeErrorInStack)) (str ''TypeError'')"
    unfolding typeErrorInStack_def plainProps_def
    by (simp add: no_TypeError_in_failed)
  have nn: "\<not> includes_str (message (props noTypeError)) (str ''TypeError'')"
    unfolding noTypeError_def plainProps_def by code_simp
  have "\<not> instanceofTypeError (props noTypeError)"
    "name (props noTypeError) \<noteq> Some (str ''TypeError'')"
    "stack (props noTypeError) = None" "cause noTypeError = NoCause"
    by (simp_all add: noTypeError_def plainProps_def Error_not_TypeError)
  with nn have tn: "errorIsTypeError noTypeError = Some False"
    by (simp add: errorIsTypeError_iff
        [where e = noTypeError, THEN conjunct2, THEN conjunct2, THEN conjunct2, THEN conjunct1])
  have "instanceofTypeError (props typeErrorSample)"
    by (simp add: typeErrorSample_def typeErrorProps_def plainProps_def)
  then have t1: "errorIsTypeError typeErrorSample = Some True"
    by (simp add: errorIsTypeError_iff
        [where e = typeErrorSample, THEN conjunct2, THEN conjunct2, THEN conjunct1])
  have g1: "errorIsGack typeErrorSample = Some False"
    unfolding typeErrorSample_def typeErrorProps_def by code_simp
  have c1: "computeErrorCode JUndefined typeErrorSample = Some (Inr (Integral 10))"
    using t1 g1
    by (simp add: errorIsTypeError_iff [where e = typeErrorSample and pec = JUndefined,
          THEN conjunct2, THEN conjunct2, THEN conjunct2, THEN conjunct2, THEN conjunct1])
  have "name (props typeErrorWithGack) = Some (str ''TypeError'')"
    by (simp add: typeErrorWithGack_def typeErrorProps_def plainProps_def)
  then have t2: "errorIsTypeError typeErrorWithGack = Some True"
    by (simp add: errorIsTypeError_iff
        [where e = typeErrorWithGack, THEN conjunct2, THEN conjunct2, THEN conjunct1])
  have "nthCause (Suc 0) typeErrorWithGack = Some gackError" "gackHere gackError"
    by (simp_all add: typeErrorWithGack_def gackHere_def gackError_def plainProps_def
        regexTest_gackMessage)
  then have g2: "errorIsGack typeErrorWithGack = Some True"
    by (rule errorIsGack_nthCause)
  have c2: "computeErrorCode JUndefined typeErrorWithGack = Some (Inr (Integral 20))"
    using t2 g2
    by (simp add: errorIsTypeError_iff [where e = typeErrorWithGack and pec = JUndefined,
          THEN conjunct2, THEN conjunct2, THEN conjunct2, THEN conjunct2, THEN conjunct2,
          THEN conjunct1])
  have x: "exitCode (props typeErrorSample) = Some (JNumber (Integral 7))"
    by (simp add: typeErrorSample_def typeErrorProps_def plainProps_def)
  have n: "nthCause 2 typeErrorWithGack = None"
    by (simp add: typeErrorWithGack_def gackError_def numeral_2_eq_2)
  have c3: "computeErrorCode (JNumber (Integral 2)) typeErrorWithGack = Some (Inr (Integral 20))"
    using t2 n g2
    by (simp add: errorIsTypeError_iff
        [where e = typeErrorWithGack and pec = "JNumber (Integral 2)" and n = 2,
          THEN conjunct2, THEN conjunct2, THEN conjunct2, THEN conjunct2, THEN conjunct2,
          THEN conjunct2])
  from im nm t0 g0 c0 ns ts nn tn t1 g1 c1 t2 g2 c2 x n c3 show ?thesis by simp
qed

text \<open>
  On the \<open>TypeError\<close> that is its own cause, \<open>errorIsTypeError\<close> returns true, but the
  search for a gack, which comes first, does not return: no exit code is returned.
\<close>

theorem selfCausedTypeError_no_exit_code:
  "errorIsTypeError selfCausedTypeError = Some True \<and>
   errorIsGack selfCausedTypeError = None \<and>
   computeErrorCode JNull selfCausedTypeError = None"
  by (simp add: errorIsTypeError_selfCausedTypeError errorIsGack_selfCausedTypeError
      computeErrorCode_no_result)

lemma nonNegative_number:
  "nonNegativeIfNumber (JNumber r) \<Longrightarrow> \<exists>k. 0 \<le> k \<and> r = Integral k"
  by (cases r) auto

lemma firstMatch_Some: "firstMatch xs = Some r \<Longrightarrow> Some r \<in> set xs"
  by (induction xs rule: firstMatch.induct) auto

lemma firstMatch_default: "\<exists>r. firstMatch [a, b, c, d, f, h, Some x] = Some r"
  by (cases a; cases b; cases c; cases d; cases f; cases h) simp_all

text \<open>
  Claim C5. On an error whose cause chain ends, and whose \<open>oclif\<close> property is absent
  or holds a value other than \<open>undefined\<close> and \<open>null\<close>, \<open>computeErrorCode\<close> throws
  nothing and returns a number. The number is a non-negative integer when each of
  \<open>oclif.exit\<close>, \<open>exitCode\<close>, \<open>code\<close> and the exit code of the process either is not a
  number or is a non-negative integer: the function passes these values on and does
  not clamp them.
\<close>

theorem computeErrorCode_returns:
  assumes "nthCause n e = None"
    and "oclif (props e) \<noteq> Some JUndefined" and "oclif (props e) \<noteq> Some JNull"
  shows "(\<exists>r. computeErrorCode pec e = Some (Inr r)) \<and>
   ((\<forall>kvs v. oclif (props e) = Some (JObject kvs) \<and> map_of kvs ''exit'' = Some v
        \<longrightarrow> nonNegativeIfNumber v) \<and>
    (\<forall>v. exitCode (props e) = Some v \<longrightarrow> nonNegativeIfNumber v) \<and>
    (\<forall>v. code (props e) = Some v \<longrightarrow> nonNegativeIfNumber v) \<and>
    nonNegativeIfNumber pec
    \<longrightarrow> (\<exists>k. 0 \<le> k \<and> computeErrorCode pec e = Some (Inr (Integral k))))"
proof -
  obtain g where g: "errorIsGack e = Some g"
    using errorIsGack_terminates [OF assms(1)] by blast
  obtain t where t: "errorIsTypeError e = Some t"
    using errorIsTypeError_terminates [OF assms(1)] by blast
  have eq: "computeErrorCode pec e =
      map_option Inr (firstMatch (exitCodeSources g t pec (props e)))"
    using g t assms(2,3) computeErrorCode_firstMatch [of e g t pec] by blast
  have "\<exists>r. firstMatch (exitCodeSources g t pec (props e)) = Some r"
    unfolding exitCodeSources_def by (rule firstMatch_default)
  then obtain r where r: "firstMatch (exitCodeSources g t pec (props e)) = Some r" ..
  have ret: "\<exists>r. computeErrorCode pec e = Some (Inr r)"
    using eq r by simp
  have nn: "\<exists>k. 0 \<le> k \<and> computeErrorCode pec e = Some (Inr (Integral k))"
    if oc: "\<forall>kvs v. oclif (props e) = Some (JObject kvs) \<and> map_of kvs ''exit'' = Some v
        \<longrightarrow> nonNegativeIfNumber v"
      and ex: "\<forall>v. exitCode (props e) = Some v \<longrightarrow> nonNegativeIfNumber v"
      and co: "\<forall>v. code (props e) = Some v \<longrightarrow> nonNegativeIfNumber v"
      and pe: "nonNegativeIfNumber pec"
  proof -
    have "Some r \<in> set (exitCodeSources g t pec (props e))"
      using r by (rule firstMatch_Some)
    then have "Some r = (if g then Some (Integral 20) else None) \<or>
        Some r = (if t then Some (Integral 10) else None) \<or>
        Some r = (case oclif (props e) of
           Some (JObject kvs) \<Rightarrow>
             (case map_of kvs ''exit'' of Some (JNumber n) \<Rightarrow> Some n | _ \<Rightarrow> None)
         | _ \<Rightarrow> None) \<or>
        Some r = (case exitCode (props e) of Some (JNumber n) \<Rightarrow> Some n | _ \<Rightarrow> None) \<or>
        Some r = (case code (props e) of
           None \<Rightarrow> None
         | Some (JNumber n) \<Rightarrow> Some n
         | Some _ \<Rightarrow> Some (Integral 1)) \<or>
        Some r = (case pec of JNumber n \<Rightarrow> Some n | _ \<Rightarrow> None) \<or>
        Some r = Some (Integral 1)"
      unfolding exitCodeSources_def by (simp only: list.set insert_iff empty_iff simp_thms)
    then have "\<exists>k. 0 \<le> k \<and> r = Integral k"
    proof (elim disjE)
      assume "Some r = (if g then Some (Integral 20) else None)"
      then show ?thesis by (simp split: if_splits)
    next
      assume "Some r = (if t then Some (Integral 10) else None)"
      then show ?thesis by (simp split: if_splits)
    next
      assume "Some r = (case oclif (props e) of
           Some (JObject kvs) \<Rightarrow>
             (case map_of kvs ''exit'' of Some (JNumber n) \<Rightarrow> Some n | _ \<Rightarrow> None)
         | _ \<Rightarrow> None)"
      then obtain kvs where "oclif (props e) = Some (JObject kvs)"
          "map_of kvs ''exit'' = Some (JNumber r)"
        by (auto split: option.splits jsvalue.splits)
      with oc have "nonNegativeIfNumber (JNumber r)" by blast
      then show ?thesis by (rule nonNegative_number)
    next
      assume "Some r = (case exitCode (props e) of Some (JNumber n) \<Rightarrow> Some n | _ \<Rightarrow> None)"
      then have "exitCode (props e) = Some (JNumber r)"
        by (auto split: option.splits jsvalue.splits)
      with ex have "nonNegativeIfNumber (JNumber r)" by blast
      then show ?thesis by (rule nonNegative_number)
    next
      assume "Some r = (case code (props e) of
           None \<Rightarrow> None
         | Some (JNumber n) \<Rightarrow> Some n
         | Some _ \<Rightarrow> Some (Integral 1))"
      then have "code (props e) = Some (JNumber r) \<or> r = Integral 1"
        by (auto split: option.splits jsvalue.splits)
      then show ?thesis
      proof
        assume "code (props e) = Some (JNumber r)"
        with co have "nonNegativeIfNumber (JNumber r)" by blast
        then show ?thesis by (rule nonNegative_number)
      next
        assume "r = Integral 1"
        then show ?thesis by simp
      qed
    next
      assume "Some r = (case pec of JNumber n \<Rightarrow> Some n | _ \<Rightarrow> None)"
      then have "pec = JNumber r"
        by (auto split: jsvalue.splits)
      with pe have "nonNegativeIfNumber (JNumber r)" by simp
      then show ?thesis by (rule nonNegative_number)
    next
      assume "Some r = Some (Integral 1)"
      then show ?thesis by simp
    qed
    then obtain k where "0 \<le> k" "r = Integral k" by blast
    with eq r show ?thesis by simp
  qed
  from ret nn show ?thesis by blast
qed


text \<open>
  \<open>oclif.exit = 5\<close> and \<open>exitCode = 7\<close>, with 2 as the exit code of the process: the
  result is a non-negative integer.
\<close>

theorem computeErrorCode_returns_witness:
  "nthCause 1 oclifError = None \<and>
   oclif (props oclifError) = Some (JObject [(''exit'', JNumber (Integral 5))]) \<and>
   exitCode (props oclifError) = Some (JNumber (Integral 7)) \<and>
   code (props oclifError) = None \<and>
   (\<exists>r. computeErrorCode (JNumber (Integral 2)) oclifError = Some (Inr r)) \<and>
   (\<exists>k. 0 \<le> k \<and> computeErrorCode (JNumber (Integral 2)) oclifError = Some (Inr (Integral k)))"
proof -
  have n: "nthCause 1 oclifError = None" by (simp add: oclifError_def)
  have f: "oclif (props oclifError) = Some (JObject [(''exit'', JNumber (Integral 5))])"
    "exitCode (props oclifError) = Some (JNumber (Integral 7))"
    "code (props oclifError) = None"
    by (simp_all add: oclifError_def plainProps_def)
  have o: "oclif (props oclifError) \<noteq> Some JUndefined" "oclif (props oclifError) \<noteq> Some JNull"
    by (simp_all add: f)
  have h1: "\<forall>kvs v. oclif (props oclifError) = Some (JObject kvs) \<and>
      map_of kvs ''exit'' = Some v \<longrightarrow> nonNegativeIfNumber v"
    unfolding f(1) by auto
  have h2: "\<forall>v. exitCode (props oclifError) = Some v \<longrightarrow> nonNegativeIfNumber v"
    unfolding f(2) by auto
  have h3: "\<forall>v. code (props oclifError) = Some v \<longrightarrow> nonNegativeIfNumber v"
    unfolding f(3) by simp
  have h4: "nonNegativeIfNumber (JNumber (Integral 2))" by simp
  have a: "\<exists>r. computeErrorCode (JNumber (Integral 2)) oclifError = Some (Inr r)"
    by (rule computeErrorCode_returns [OF n o, of "JNumber (Integral 2)", THEN conjunct1])
  have b: "\<exists>k. 0 \<le> k \<and>
      computeErrorCode (JNumber (Integral 2)) oclifError = Some (Inr (Integral k))"
    by (rule computeErrorCode_returns [OF n o, of "JNumber (Integral 2)", THEN conjunct2,
          THEN mp, OF conjI [OF h1 conjI [OF h2 conjI [OF h3 h4]]]])
  show ?thesis
    by (rule conjI [OF n conjI [OF f(1) conjI [OF f(2) conjI [OF f(3) conjI [OF a b]]]]])
qed

text \<open>
  An error with \<open>exitCode = -1\<close> gives -1; on the error that is its own cause
  \<open>computeErrorCode\<close> does not return; and with the key \<open>oclif\<close> present and \<open>null\<close>,
  reading \<open>e.oclif.exit\<close> throws.
\<close>

theorem computeErrorCode_negative_or_none:
  "computeErrorCode JUndefined negativeExit = Some (Inr (Integral (- 1))) \<and>
   computeErrorCode JUndefined selfCaused = None \<and>
   computeErrorCode JUndefined
     (Error ((plainProps (str ''failed''))\<lparr>oclif := Some JNull\<rparr>) NoCause) =
     Some (Inl TypeError_reading_nullish)"
proof (intro conjI)
  have ng: "errorIsGack (Error ((plainProps (str ''failed''))\<lparr>oclif := z, exitCode := x\<rparr>) NoCause) =
      Some False" for x z
    by (subst errorIsGack_unfold) (simp add: gackHere_def plainProps_def no_gack_in_failed)
  have nt: "errorIsTypeError
      (Error ((plainProps (str ''failed''))\<lparr>oclif := z, exitCode := x\<rparr>) NoCause) =
      Some False" for x z
    by (subst errorIsTypeError_unfold)
      (simp add: typeErrorHere_def plainProps_def no_TypeError_in_failed Error_not_TypeError)
  show "computeErrorCode JUndefined negativeExit = Some (Inr (Integral (- 1)))"
    using ng [where z = None and x = "Some (JNumber (Integral (- 1)))"]
      nt [where z = None and x = "Some (JNumber (Integral (- 1)))"]
    by (simp add: computeErrorCode_def negativeExit_def plainProps_def)
  show "computeErrorCode JUndefined selfCaused = None"
    by (simp add: computeErrorCode_def errorIsGack_selfCaused)
  show "computeErrorCode JUndefined
     (Error ((plainProps (str ''failed''))\<lparr>oclif := Some JNull\<rparr>) NoCause) =
     Some (Inl TypeError_reading_nullish)"
    using ng [where z = "Some JNull" and x = None] nt [where z = "Some JNull" and x = None]
    by (simp add: computeErrorCode_def plainProps_def)
qed

text \<open>
  Claim C9. When the cause chain of an error ends after \<open>n\<close> links, \<open>errorIsGack\<close> and
  \<open>errorIsTypeError\<close> return. Neither has a cycle guard or a depth bound: on a chain
  that never ends and holds no match, the classifier does not return.
\<close>

theorem classifiers_terminate:
  "(nthCause n e = None \<longrightarrow>
      (\<exists>b. errorIsGack e = Some b) \<and> (\<exists>b. errorIsTypeError e = Some b)) \<and>
   ((\<forall>k. \<exists>d. nthCause k e = Some d \<and> \<not> gackHere d) \<longrightarrow> errorIsGack e = None) \<and>
   ((\<forall>k. \<exists>d. nthCause k e = Some d \<and> \<not> typeErrorHere d) \<longrightarrow> errorIsTypeError e = None)"
proof (intro conjI impI)
  assume "nthCause n e = None"
  then show "\<exists>b. errorIsGack e = Some b" by (rule errorIsGack_terminates)
next
  assume "nthCause n e = None"
  then show "\<exists>b. errorIsTypeError e = Some b" by (rule errorIsTypeError_terminates)
next
  assume inf: "\<forall>k. \<exists>d. nthCause k e = Some d \<and> \<not> gackHere d"
  show "errorIsGack e = None"
  proof (cases "errorIsGack e")
    case (Some b)
    from errorIsGack_returns_only_if [OF this] obtain m
      where m: "nthCause m e = None \<or> (\<exists>d. nthCause m e = Some d \<and> gackHere d)" by blast
    from inf obtain d where "nthCause m e = Some d" "\<not> gackHere d" by blast
    with m show ?thesis by auto
  qed simp
next
  assume inf: "\<forall>k. \<exists>d. nthCause k e = Some d \<and> \<not> typeErrorHere d"
  show "errorIsTypeError e = None"
  proof (cases "errorIsTypeError e")
    case (Some b)
    from errorIsTypeError_returns_only_if [OF this] obtain m
      where m: "nthCause m e = None \<or> (\<exists>d. nthCause m e = Some d \<and> typeErrorHere d)"
      by blast
    from inf obtain d where "nthCause m e = Some d" "\<not> typeErrorHere d" by blast
    with m show ?thesis by auto
  qed simp
qed

text \<open>
  A chain of three errors, and the error that is its own cause, on which neither
  classifier returns.
\<close>

theorem classifiers_terminate_witness:
  "nthCause 3 wrappedGack = None \<and>
   errorIsGack wrappedGack = Some True \<and> errorIsTypeError wrappedGack = Some False \<and>
   (\<forall>k. \<exists>d. nthCause k selfCaused = Some d \<and> \<not> gackHere d) \<and>
   (\<forall>k. \<exists>d. nthCause k selfCaused = Some d \<and> \<not> typeErrorHere d) \<and>
   errorIsGack selfCaused = None \<and> errorIsTypeError selfCaused = None"
proof -
  have n: "nthCause 3 wrappedGack = None"
    by (simp add: wrappedGack_def gackError_def numeral_3_eq_3)
  have g: "errorIsGack wrappedGack = Some True" by code_simp
  have t: "errorIsTypeError wrappedGack = Some False" by code_simp
  have ig: "\<forall>k. \<exists>d. nthCause k selfCaused = Some d \<and> \<not> gackHere d"
    by (simp add: nthCause_selfCaused not_gackHere_selfCaused)
  have it: "\<forall>k. \<exists>d. nthCause k selfCaused = Some d \<and> \<not> typeErrorHere d"
    by (simp add: nthCause_selfCaused not_typeErrorHere_selfCaused)
  have dg: "errorIsGack selfCaused = None"
    using classifiers_terminate [of 0 selfCaused] ig by blast
  have dt: "errorIsTypeError selfCaused = None"
    using classifiers_terminate [of 0 selfCaused] it by blast
  have "(\<exists>b. errorIsGack wrappedGack = Some b) \<and> (\<exists>b. errorIsTypeError wrappedGack = Some b)"
    using classifiers_terminate [of 3 wrappedGack] n by blast
  with n g t ig it dg dt show ?thesis by blast
qed


subsection \<open>The structured report\<close>

text \<open>Looking a key up after a spread, and after \<open>removeEmpty\<close>.\<close>

lemma map_of_spread: "map_of (spread a b) = map_of a ++ map_of (rev b)"
  unfolding spread_def
proof (induction b arbitrary: a)
  case Nil
  show ?case by simp
next
  case (Cons kv b)
  obtain k v where kv: "kv = (k, v)" by (cases kv)
  have "map_of (fold (\<lambda>(k, v). AList.update k v) b (AList.update k v a)) =
          map_of (AList.update k v a) ++ map_of (rev b)"
    by (rule Cons.IH)
  then show ?case
    by (simp add: kv update_conv' map_add_upd_left fun_eq_iff map_add_def split: option.splits)
qed

lemma map_of_removeEmpty_Cons:
  "map_of (removeEmpty ((k, v) # obj)) k' =
     (if nullish v then map_of (removeEmpty obj) k'
      else if k = k' then Some v else map_of (removeEmpty obj) k')"
  by (simp add: removeEmpty_def)

lemma map_of_removeEmpty_Nil: "map_of (removeEmpty []) k' = None"
  by (simp add: removeEmpty_def)

lemmas report_eval =
  errorToSfCommandError_def map_of_spread map_add_def map_of_removeEmpty_Cons
  map_of_removeEmpty_Nil nullish_def coalesce_def

text \<open>
  Claim C7. In the record that \<open>errorToSfCommandError\<close> builds, \<open>context\<close> is the
  \<open>context\<close> of the error when that is present and neither \<open>null\<close> nor \<open>undefined\<close>,
  and the \<open>commandName\<close> parameter otherwise; \<open>commandName\<close> follows the same rule with
  the \<open>commandName\<close> of the error. \<open>code\<close>, \<open>status\<close> and \<open>exitCode\<close> are the code
  argument; \<open>message\<close>, \<open>name\<close> (\<open>'Error'\<close> when absent) and \<open>stack\<close> are those of the
  error, the key \<open>stack\<close> being there also when the stack is \<open>undefined\<close>. \<open>actions\<close>,
  \<open>data\<close> and \<open>result\<close> are copied when present and not nullish, and are absent
  otherwise.
\<close>

theorem errorToSfCommandError_fields:
  "map_of (errorToSfCommandError codeFromError e cmd) ''context'' =
     Some (case context_prop (props e) of
             None \<Rightarrow> JString cmd
           | Some v \<Rightarrow> if nullish v then JString cmd else v) \<and>
   map_of (errorToSfCommandError codeFromError e cmd) ''commandName'' =
     Some (case commandName (props e) of
             None \<Rightarrow> JString cmd
           | Some v \<Rightarrow> if nullish v then JString cmd else v) \<and>
   map_of (errorToSfCommandError codeFromError e cmd) ''code'' = Some (JNumber codeFromError) \<and>
   map_of (errorToSfCommandError codeFromError e cmd) ''status'' = Some (JNumber codeFromError) \<and>
   map_of (errorToSfCommandError codeFromError e cmd) ''exitCode'' = Some (JNumber codeFromError) \<and>
   map_of (errorToSfCommandError codeFromError e cmd) ''message'' =
     Some (JString (message (props e))) \<and>
   map_of (errorToSfCommandError codeFromError e cmd) ''name'' =
     Some (JString (case name (props e) of None \<Rightarrow> str ''Error'' | Some n \<Rightarrow> n)) \<and>
   map_of (errorToSfCommandError codeFromError e cmd) ''stack'' =
     Some (case stack (props e) of None \<Rightarrow> JUndefined | Some s \<Rightarrow> JString s) \<and>
   map_of (errorToSfCommandError codeFromError e cmd) ''actions'' =
     (case actions (props e) of
        None \<Rightarrow> None
      | Some v \<Rightarrow> if nullish v then None else Some v) \<and>
   map_of (errorToSfCommandError codeFromError e cmd) ''data'' =
     (case data (props e) of
        None \<Rightarrow> None
      | Some v \<Rightarrow> if nullish v then None else Some v) \<and>
   map_of (errorToSfCommandError codeFromError e cmd) ''result'' =
     (case result (props e) of
        None \<Rightarrow> None
      | Some v \<Rightarrow> if nullish v then None else Some v)"
proof (intro conjI)
  show "map_of (errorToSfCommandError codeFromError e cmd) ''context'' =
     Some (case context_prop (props e) of
             None \<Rightarrow> JString cmd
           | Some v \<Rightarrow> if nullish v then JString cmd else v)"
    by (simp add: report_eval split: option.splits)
  show "map_of (errorToSfCommandError codeFromError e cmd) ''commandName'' =
     Some (case commandName (props e) of
             None \<Rightarrow> JString cmd
           | Some v \<Rightarrow> if nullish v then JString cmd else v)"
    by (simp add: report_eval split: option.splits)
  show "map_of (errorToSfCommandError codeFromError e cmd) ''code'' = Some (JNumber codeFromError)"
    by (simp add: report_eval)
  show "map_of (errorToSfCommandError codeFromError e cmd) ''status'' = Some (JNumber codeFromError)"
    by (simp add: report_eval)
  show "map_of (errorToSfCommandError codeFromError e cmd) ''exitCode'' = Some (JNumber codeFromError)"
    by (simp add: report_eval)
  show "map_of (errorToSfCommandError codeFromError e cmd) ''message'' =
     Some (JString (message (props e)))"
    by (simp add: report_eval)
  show "map_of (errorToSfCommandError codeFromError e cmd) ''name'' =
     Some (JString (case name (props e) of None \<Rightarrow> str ''Error'' | Some n \<Rightarrow> n))"
    by (simp add: report_eval)
  show "map_of (errorToSfCommandError codeFromError e cmd) ''stack'' =
     Some (case stack (props e) of None \<Rightarrow> JUndefined | Some s \<Rightarrow> JString s)"
    by (simp add: report_eval)
  show "map_of (errorToSfCommandError codeFromError e cmd) ''actions'' =
     (case actions (props e) of
        None \<Rightarrow> None
      | Some v \<Rightarrow> if nullish v then None else Some v)"
    by (simp add: report_eval split: option.splits)
  show "map_of (errorToSfCommandError codeFromError e cmd) ''data'' =
     (case data (props e) of
        None \<Rightarrow> None
      | Some v \<Rightarrow> if nullish v then None else Some v)"
    by (simp add: report_eval split: option.splits)
  show "map_of (errorToSfCommandError codeFromError e cmd) ''result'' =
     (case result (props e) of
        None \<Rightarrow> None
      | Some v \<Rightarrow> if nullish v then None else Some v)"
    by (simp add: report_eval split: option.splits)
qed

text \<open>\<open>errorToSfCommandError(3, {message: 'x', name: 'Error'}, 'deploy')\<close>\<close>

theorem errorToSfCommandError_fields_witness:
  "errorToSfCommandError (Integral 3) (Error (plainProps (str ''x'')) NoCause) (str ''deploy'') =
     [(''code'', JNumber (Integral 3)), (''context'', JString (str ''deploy'')),
      (''commandName'', JString (str ''deploy'')), (''message'', JString (str ''x'')),
      (''name'', JString (str ''Error'')), (''status'', JNumber (Integral 3)),
      (''stack'', JUndefined), (''exitCode'', JNumber (Integral 3))] \<and>
   map_of (errorToSfCommandError (Integral 3) (Error (plainProps (str ''x'')) NoCause) (str ''deploy''))
     ''context'' = Some (JString (str ''deploy'')) \<and>
   map_of (errorToSfCommandError (Integral 3) (Error (plainProps (str ''x'')) NoCause) (str ''deploy''))
     ''commandName'' = Some (JString (str ''deploy'')) \<and>
   map_of (errorToSfCommandError (Integral 3) (Error (plainProps (str ''x'')) NoCause) (str ''deploy''))
     ''code'' = Some (JNumber (Integral 3)) \<and>
   map_of (errorToSfCommandError (Integral 3) (Error (plainProps (str ''x'')) NoCause) (str ''deploy''))
     ''exitCode'' = Some (JNumber (Integral 3)) \<and>
   map_of (errorToSfCommandError (Integral 3) (Error (plainProps (str ''x'')) NoCause) (str ''deploy''))
     ''actions'' = None \<and>
   map_of (errorToSfCommandError (Integral 3) (Error (plainProps (str ''x'')) NoCause) (str ''deploy''))
     ''data'' = None \<and>
   map_of (errorToSfCommandError (Integral 3) (Error (plainProps (str ''x'')) NoCause) (str ''deploy''))
     ''result'' = None"
proof -
  have l: "errorToSfCommandError (Integral 3) (Error (plainProps (str ''x'')) NoCause) (str ''deploy'') =
     [(''code'', JNumber (Integral 3)), (''context'', JString (str ''deploy'')),
      (''commandName'', JString (str ''deploy'')), (''message'', JString (str ''x'')),
      (''name'', JString (str ''Error'')), (''status'', JNumber (Integral 3)),
      (''stack'', JUndefined), (''exitCode'', JNumber (Integral 3))]"
    by (simp add: errorToSfCommandError_def spread_def removeEmpty_def nullish_def
        coalesce_def plainProps_def)
  from errorToSfCommandError_fields [of "Integral 3" "Error (plainProps (str ''x'')) NoCause" "str ''deploy''"]
  have "map_of (errorToSfCommandError (Integral 3) (Error (plainProps (str ''x'')) NoCause) (str ''deploy''))
     ''context'' = Some (JString (str ''deploy'')) \<and>
   map_of (errorToSfCommandError (Integral 3) (Error (plainProps (str ''x'')) NoCause) (str ''deploy''))
     ''commandName'' = Some (JString (str ''deploy'')) \<and>
   map_of (errorToSfCommandError (Integral 3) (Error (plainProps (str ''x'')) NoCause) (str ''deploy''))
     ''code'' = Some (JNumber (Integral 3)) \<and>
   map_of (errorToSfCommandError (Integral 3) (Error (plainProps (str ''x'')) NoCause) (str ''deploy''))
     ''exitCode'' = Some (JNumber (Integral 3)) \<and>
   map_of (errorToSfCommandError (Integral 3) (Error (plainProps (str ''x'')) NoCause) (str ''deploy''))
     ''actions'' = None \<and>
   map_of (errorToSfCommandError (Integral 3) (Error (plainProps (str ''x'')) NoCause) (str ''deploy''))
     ''data'' = None \<and>
   map_of (errorToSfCommandError (Integral 3) (Error (plainProps (str ''x'')) NoCause) (str ''deploy''))
     ''result'' = None"
    by (simp add: plainProps_def)
  with l show ?thesis by blast
qed

text \<open>
  An error with \<open>commandName: 'foo'\<close> and no \<open>context\<close>, reported for the command
  \<open>deploy\<close>: the \<open>context\<close> of the record is \<open>'deploy'\<close>, not \<open>'foo'\<close>.
\<close>

theorem errorToSfCommandError_context_ignores_commandName:
  "context_prop (props fooError) = None \<and>
   commandName (props fooError) = Some (JString (str ''foo'')) \<and>
   map_of (errorToSfCommandError (Integral 3) fooError (str ''deploy'')) ''context'' =
     Some (JString (str ''deploy'')) \<and>
   map_of (errorToSfCommandError (Integral 3) fooError (str ''deploy'')) ''context'' \<noteq>
     commandName (props fooError)"
  by (simp add: report_eval fooError_def plainProps_def str_def)

end
